theory Spec2Isabelle
  imports Main "HOL-Library.Sublist" "HOL-Library.Word"
begin

unbundle bit_operations_syntax

section \<open>Go string helpers used by the plugin\<close>

text \<open>
  Go strings are byte sequences; they are modelled as \<open>string\<close> (a list of 8-bit
  characters), so \<open>length\<close> is Go's \<open>len\<close>.
\<close>

text \<open>\<open>strings.Contains(s, substr)\<close>: scan \<open>s\<close> for a position where \<open>substr\<close> starts.\<close>

fun Contains :: "string \<Rightarrow> string \<Rightarrow> bool" where
  "Contains [] substr = (substr = [])"
| "Contains (c # s) substr = (prefix substr (c # s) \<or> Contains s substr)"

text \<open>\<open>strings.HasPrefix(s, p)\<close>.\<close>

definition HasPrefix :: "string \<Rightarrow> string \<Rightarrow> bool" where
  "HasPrefix s p = (length p \<le> length s \<and> take (length p) s = p)"

text \<open>
  \<open>strings.Split(s, sep)\<close> for a non-empty separator: the pieces of \<open>s\<close> between the
  occurrences of \<open>sep\<close>, read left to right. (With an empty separator Go explodes the
  string into its characters; the plugin never does that.)
\<close>

function Split :: "string \<Rightarrow> string \<Rightarrow> string list" where
  "Split s sep =
     (if sep = [] then map (\<lambda>c. [c]) s
      else if s = [] then [[]]
      else if prefix sep s then [] # Split (drop (length sep) s) sep
      else (case Split (tl s) sep of
              p # ps \<Rightarrow> (hd s # p) # ps
            | [] \<Rightarrow> [[hd s]]))"
  by pat_completeness auto
termination
  by (relation "measure (\<lambda>(s, sep). length s)") auto

declare Split.simps [simp del]

text \<open>\<open>strings.ToLower\<close> on the ASCII range (repository and owner names are ASCII).\<close>

definition lower_char :: "char \<Rightarrow> char" where
  "lower_char c =
     (let n = (of_char c :: nat)
      in if 65 \<le> n \<and> n \<le> 90 then char_of (n + 32) else c)"

definition ToLower :: "string \<Rightarrow> string" where
  "ToLower s = map lower_char s"

section \<open>Signature verifier\<close>

type_synonym byte = "8 word"

datatype error =
    InvalidByteError char
  | ErrLength
  | Error string

text \<open>
  \<open>encoding/hex\<close>: the value of one hex digit (both letter cases are accepted), and
  \<open>hex.Decode\<close>, which reads the source two characters at a time and stops at the first
  character that is not a hex digit.
\<close>

definition fromHexChar :: "char \<Rightarrow> byte option" where
  "fromHexChar c =
     (let n = (of_char c :: nat)
      in if 48 \<le> n \<and> n \<le> 57 then Some (of_nat (n - 48))
         else if 97 \<le> n \<and> n \<le> 102 then Some (of_nat (n - 97 + 10))
         else if 65 \<le> n \<and> n \<le> 70 then Some (of_nat (n - 65 + 10))
         else None)"

fun hexDecode :: "string \<Rightarrow> error + byte list" where
  "hexDecode [] = Inr []"
| "hexDecode [p] =
     (case fromHexChar p of
        None \<Rightarrow> Inl (InvalidByteError p)
      | Some a \<Rightarrow> Inl ErrLength)"
| "hexDecode (p # q # rest) =
     (case fromHexChar p of
        None \<Rightarrow> Inl (InvalidByteError p)
      | Some a \<Rightarrow>
          (case fromHexChar q of
             None \<Rightarrow> Inl (InvalidByteError q)
           | Some b \<Rightarrow>
               (case hexDecode rest of
                  Inl e \<Rightarrow> Inl e
                | Inr bs \<Rightarrow> Inr ((push_bit 4 a OR b) # bs))))"

text \<open>
  \<open>hmac.Equal\<close> compares in constant time: unequal lengths differ at once, otherwise
  the XORs of all byte pairs are OR-ed together and the result is compared with zero.
\<close>

definition hmacEqual :: "byte list \<Rightarrow> byte list \<Rightarrow> bool" where
  "hmacEqual x y =
     (if length x \<noteq> length y then False
      else fold (\<lambda>(a, b) v. v OR (a XOR b)) (zip x y) 0 = 0)"

text \<open>
  The keyed hash itself (HMAC-SHA1 of the Go standard library) is a parameter \<open>mac\<close>
  taking the secret and the message. Writing to the hash never fails, so \<open>signBody\<close>
  always returns a digest.
\<close>

definition signBody :: "(byte list \<Rightarrow> byte list \<Rightarrow> byte list) \<Rightarrow> byte list \<Rightarrow> byte list
    \<Rightarrow> error + byte list" where
  "signBody mac secret body = Inr (mac secret body)"

definition verifyWebhookSignature ::
    "(byte list \<Rightarrow> byte list \<Rightarrow> byte list) \<Rightarrow> byte list \<Rightarrow> string \<Rightarrow> byte list
      \<Rightarrow> error + bool" where
  "verifyWebhookSignature mac secret signature body =
     (if length signature \<noteq> 45 \<or> \<not> HasPrefix signature ''sha1='' then Inr False
      else (case hexDecode (drop 5 signature) of
              Inl err \<Rightarrow> Inl err
            | Inr actual \<Rightarrow>
                (case signBody mac secret body of
                   Inl err \<Rightarrow> Inl err
                 | Inr sb \<Rightarrow> Inr (hmacEqual sb actual))))"

text \<open>
  The sender's side of the header, for stating the round trip: lower-case hex of each
  byte, high nibble first, after the literal prefix.
\<close>

definition hexDigit :: "byte \<Rightarrow> char" where
  "hexDigit n = ''0123456789abcdef'' ! unat n"

definition hexEncode :: "byte list \<Rightarrow> string" where
  "hexEncode bs = concat (map (\<lambda>b. [hexDigit (drop_bit 4 b), hexDigit (b AND 15)]) bs)"

definition isHexDigit :: "char \<Rightarrow> bool" where
  "isHexDigit c = (c \<in> set ''0123456789abcdefABCDEF'')"

text \<open>A toy keyed hash for running the verifier on concrete inputs.\<close>

definition mac0 :: "byte list \<Rightarrow> byte list \<Rightarrow> byte list" where
  "mac0 secret body =
     take 20 (secret @ body @ [0, 0, 0, 0, 0, 0, 0, 0, 0, 0, 0, 0, 0, 0, 0, 0, 0, 0, 0, 0])"

section \<open>Subscriptions\<close>

record SubscriptionFlags =
  ExcludeOrgMembersFlag :: bool
  ExcludeOrgRepos :: bool

record Subscription =
  ChannelID :: string
  CreatorID :: string
  Features :: string
  Flags :: SubscriptionFlags
  Repository :: string

definition featureIssueCreation :: string where "featureIssueCreation = ''issue_creations''"
definition featureIssues :: string where "featureIssues = ''issues''"
definition featurePulls :: string where "featurePulls = ''pulls''"
definition featureStars :: string where "featureStars = ''stars''"

definition Pulls :: "Subscription \<Rightarrow> bool" where
  "Pulls s = Contains (Features s) featurePulls"

definition PullsMerged :: "Subscription \<Rightarrow> bool" where
  "PullsMerged s = Contains (Features s) ''pulls_merged''"

definition IssueCreations :: "Subscription \<Rightarrow> bool" where
  "IssueCreations s = Contains (Features s) ''issue_creations''"

definition Issues :: "Subscription \<Rightarrow> bool" where
  "Issues s = Contains (Features s) featureIssues"

definition Pushes :: "Subscription \<Rightarrow> bool" where
  "Pushes s = Contains (Features s) ''pushes''"

definition Creates :: "Subscription \<Rightarrow> bool" where
  "Creates s = Contains (Features s) ''creates''"

definition Deletes :: "Subscription \<Rightarrow> bool" where
  "Deletes s = Contains (Features s) ''deletes''"

definition IssueComments :: "Subscription \<Rightarrow> bool" where
  "IssueComments s = Contains (Features s) ''issue_comments''"

definition PullReviews :: "Subscription \<Rightarrow> bool" where
  "PullReviews s = Contains (Features s) ''pull_reviews''"

definition Stars :: "Subscription \<Rightarrow> bool" where
  "Stars s = Contains (Features s) featureStars"

text \<open>
  \<open>Label\<close>: the text between the first two double quotes of the features string, when
  the string mentions \<open>label:\<close> and splitting at the quotes gives at least three pieces.
\<close>

definition Label :: "Subscription \<Rightarrow> string" where
  "Label s =
     (if \<not> Contains (Features s) ''label:'' then []
      else (let labelSplit = Split (Features s) [CHR 0x22]
            in if length labelSplit < 3 then [] else labelSplit ! 1))"

definition ExcludeOrgMembers :: "Subscription \<Rightarrow> bool" where
  "ExcludeOrgMembers s = ExcludeOrgMembersFlag (Flags s)"

text \<open>\<open>strings.Join(elems, sep)\<close>.\<close>

fun Join :: "string list \<Rightarrow> string \<Rightarrow> string" where
  "Join [] sep = []"
| "Join [x] sep = x"
| "Join (x # y # ys) sep = x @ sep @ Join (y # ys) sep"

section \<open>The plugin: configuration, key-value store and external collaborators\<close>

text \<open>
  A value kept under a key of the key-value store as a JSON document: either bytes that
  do not decode, or the decoded document. Encoding followed by decoding is taken to give
  the document back.
\<close>

datatype 'a stored = Malformed | Doc 'a

record Subscriptions =
  Repositories :: "string \<rightharpoonup> Subscription list"

text \<open>
  The receiver \<open>p *Plugin\<close>. Its fields are the configuration, the contents of the
  key-value store (with, per key, whether a read or a write fails), the clock, and the
  collaborators the routing code calls but does not define: the hosting platform's
  client, the identity mapping, the mention parser, the template renderer and the chat
  API. A client is identified with the user information it was built from
  (\<open>githubConnectUser\<close>). A lookup on the hosting platform returns a pair: whether a
  result came back, and whether an error came back. \<open>renderTemplate\<close> is keyed by the
  template name only, the event of one request being fixed.
\<close>

record Plugin =
  WebhookSecret :: "byte list"
  EnablePrivateRepo :: bool
  KVSubscriptions :: "Subscriptions stored option"
  KVNotificationOff :: "string list stored option"
  KVBytes :: "string \<rightharpoonup> string"
  KVGetFails :: "string \<Rightarrow> bool"
  KVSetFails :: "string \<Rightarrow> bool"
  clock :: int
  isOrganizationLocked :: bool
  checkOrg :: "string \<Rightarrow> error option"
  parseOwnerAndRepo :: "string \<Rightarrow> string \<times> string"
  getGitHubUserInfo :: "string \<Rightarrow> string option"
  RepositoriesGet :: "string \<Rightarrow> string \<Rightarrow> string \<Rightarrow> bool \<times> bool"
  OrganizationsGet :: "string \<Rightarrow> string \<Rightarrow> bool \<times> bool"
  UsersGet :: "string \<Rightarrow> string \<Rightarrow> bool \<times> bool"
  isUserOrganizationMember :: "string \<Rightarrow> string \<Rightarrow> bool"
  getGitHubToUserIDMapping :: "string \<Rightarrow> string"
  parseGitHubUsernamesFromText :: "string \<Rightarrow> string list"
  renderTemplate :: "string \<Rightarrow> string option"
  GetDirectChannel :: "string \<Rightarrow> string option"

definition SubscriptionsKey :: string where
  "SubscriptionsKey = ''subscriptions''"

definition SubscribedRepoNotificationOff :: string where
  "SubscribedRepoNotificationOff = ''subscribed-turned-off-notifications''"

text \<open>
  \<open>p.API.KVGet\<close> on a key holding raw bytes: the bytes (none when the key is absent)
  and the error. The API hands back no bytes together with an error.
\<close>

definition KVGet :: "Plugin \<Rightarrow> string \<Rightarrow> string option \<times> error option" where
  "KVGet p key =
     (if KVGetFails p key then (None, Some (Error ''KVGet failed''))
      else (KVBytes p key, None))"

definition KVSet :: "Plugin \<Rightarrow> string \<Rightarrow> string \<Rightarrow> error option \<times> Plugin" where
  "KVSet p key val =
     (if KVSetFails p key then (Some (Error ''KVSet failed''), p)
      else (None, p\<lparr>KVBytes := (KVBytes p)(key \<mapsto> val)\<rparr>))"

text \<open>Go's \<open>string(bytes)\<close>: a nil slice is the empty string.\<close>

definition bytesToString :: "string option \<Rightarrow> string" where
  "bytesToString b = (case b of None \<Rightarrow> [] | Some s \<Rightarrow> s)"

subsection \<open>Mute lists\<close>

definition senderMutedByReceiver :: "Plugin \<Rightarrow> string \<Rightarrow> string \<Rightarrow> bool" where
  "senderMutedByReceiver p userID sender =
     (let mutedUsernameBytes = fst (KVGet p (userID @ ''-muted-users''));
          mutedUsernames = bytesToString mutedUsernameBytes
      in Contains mutedUsernames sender)"

definition getMutedUsernames :: "Plugin \<Rightarrow> string \<Rightarrow> string list" where
  "getMutedUsernames p userID =
     (case KVGet p (userID @ ''-muted-users'') of
        (_, Some err) \<Rightarrow> []
      | (mutedUsernameBytes, None) \<Rightarrow>
          (let mutedUsernames = bytesToString mutedUsernameBytes
           in if length mutedUsernames = 0 then [] else Split mutedUsernames '',''))"

definition handleMuteAdd :: "Plugin \<Rightarrow> string \<Rightarrow> string \<Rightarrow> string \<times> Plugin" where
  "handleMuteAdd p username userID =
     (let mutedUsernames = getMutedUsernames p userID
      in if username \<in> set mutedUsernames then (username @ '' is already muted'', p)
         else if Contains username '','' then (''Invalid username provided'', p)
         else (let mutedUsers =
                     (if length mutedUsernames > 0
                      then Join mutedUsernames '','' @ '','' @ username
                      else username)
               in case KVSet p (userID @ ''-muted-users'') mutedUsers of
                    (Some err, p') \<Rightarrow> (''Error occurred saving list of muted users'', p')
                  | (None, p') \<Rightarrow>
                      (''`'' @ username @ ''` is now muted. You will no longer receive notifications for comments in your PRs and issues.'', p')))"

subsection \<open>Subscription store\<close>

definition GetSubscriptions :: "Plugin \<Rightarrow> error + Subscriptions" where
  "GetSubscriptions p =
     (if KVGetFails p SubscriptionsKey
      then Inl (Error ''could not get subscriptions from KVStore'')
      else (case KVSubscriptions p of
              None \<Rightarrow> Inr \<lparr>Repositories = Map.empty\<rparr>
            | Some Malformed \<Rightarrow> Inl (Error ''could not properly decode subscriptions key'')
            | Some (Doc subscriptions) \<Rightarrow> Inr subscriptions))"

definition StoreSubscriptions :: "Plugin \<Rightarrow> Subscriptions \<Rightarrow> error option \<times> Plugin" where
  "StoreSubscriptions p s =
     (if KVSetFails p SubscriptionsKey
      then (Some (Error ''could not store subscriptions in KV store''), p)
      else (None, p\<lparr>KVSubscriptions := Some (Doc s)\<rparr>))"

text \<open>
  The loop of \<open>AddSubscription\<close>: overwrite the first entry with the new subscription's
  channel and stop; the flag says whether one was found.
\<close>

fun replaceExisting :: "Subscription list \<Rightarrow> Subscription \<Rightarrow> Subscription list \<times> bool" where
  "replaceExisting [] sub = ([], False)"
| "replaceExisting (s # repoSubs) sub =
     (if ChannelID s = ChannelID sub then (sub # repoSubs, True)
      else (case replaceExisting repoSubs sub of
              (repoSubs', exists) \<Rightarrow> (s # repoSubs', exists)))"

definition AddSubscription :: "Plugin \<Rightarrow> string \<Rightarrow> Subscription \<Rightarrow> error option \<times> Plugin" where
  "AddSubscription p repo sub =
     (case GetSubscriptions p of
        Inl err \<Rightarrow> (Some (Error ''could not get subscriptions''), p)
      | Inr subs \<Rightarrow>
          (let repoSubs =
                 (case Repositories subs repo of
                    None \<Rightarrow> [sub]
                  | Some repoSubs \<Rightarrow>
                      (case replaceExisting repoSubs sub of
                         (repoSubs', exists) \<Rightarrow>
                           if \<not> exists then repoSubs' @ [sub] else repoSubs'));
               subs' = subs\<lparr>Repositories := (Repositories subs)(repo \<mapsto> repoSubs)\<rparr>
           in case StoreSubscriptions p subs' of
                (Some err, p') \<Rightarrow> (Some (Error ''could not store subscriptions''), p')
              | (None, p') \<Rightarrow> (None, p')))"

text \<open>
  Modelled from the spec: \<open>fullNameFromOwnerAndRepo\<close> is not among the sources. The
  spec gives the key as \<open>owner/repo\<close>, with an empty repo segment for an organization,
  which is also what \<open>Unsubscribe\<close> formats.
\<close>

definition fullNameFromOwnerAndRepo :: "string \<Rightarrow> string \<Rightarrow> string" where
  "fullNameFromOwnerAndRepo owner repo = owner @ ''/'' @ repo"

text \<open>The loop of \<open>Unsubscribe\<close>: drop the first entry of the channel and stop.\<close>

fun removeFirst :: "Subscription list \<Rightarrow> string \<Rightarrow> Subscription list \<times> bool" where
  "removeFirst [] channelID = ([], False)"
| "removeFirst (sub # repoSubs) channelID =
     (if ChannelID sub = channelID then (repoSubs, True)
      else (case removeFirst repoSubs channelID of
              (repoSubs', removed) \<Rightarrow> (sub # repoSubs', removed)))"

definition Unsubscribe :: "Plugin \<Rightarrow> string \<Rightarrow> string \<Rightarrow> error option \<times> Plugin" where
  "Unsubscribe p channelID repo0 =
     (case parseOwnerAndRepo p repo0 of
        (owner0, repo1) \<Rightarrow>
          if owner0 = [] \<and> repo1 = [] then (Some (Error ''invalid repository''), p)
          else (let owner = ToLower owner0;
                    repo = ToLower repo1;
                    repoWithOwner = owner @ ''/'' @ repo
                in case GetSubscriptions p of
                     Inl err \<Rightarrow> (Some (Error ''could not get subscriptions''), p)
                   | Inr subs \<Rightarrow>
                       (case Repositories subs repoWithOwner of
                          None \<Rightarrow> (None, p)
                        | Some repoSubs \<Rightarrow>
                            (case removeFirst repoSubs channelID of
                               (repoSubs', removed) \<Rightarrow>
                                 if removed
                                 then (case StoreSubscriptions p
                                         (subs\<lparr>Repositories :=
                                            (Repositories subs)(repoWithOwner \<mapsto> repoSubs')\<rparr>) of
                                         (Some err, p') \<Rightarrow>
                                           (Some (Error ''could not store subscriptions''), p')
                                       | (None, p') \<Rightarrow> (None, p'))
                                 else (None, p)))))"

text \<open>
  \<open>Subscribe\<close>. The lookups on the hosting platform decide whether the target exists;
  \<open>lookupTarget\<close> is that part of the body: \<open>Inl\<close> is an early return with an error,
  \<open>Inr\<close> carries whether the last lookup left an error behind.
\<close>

definition lookupTarget :: "Plugin \<Rightarrow> string \<Rightarrow> string \<Rightarrow> string \<Rightarrow> error + bool" where
  "lookupTarget p githubClient owner repo =
     (if repo = []
      then (case OrganizationsGet p githubClient owner of
              (ghOrg, err) \<Rightarrow>
                if \<not> ghOrg
                then (case UsersGet p githubClient owner of
                        (ghUser, err') \<Rightarrow>
                          if \<not> ghUser then Inl (Error (''Unknown organization '' @ owner))
                          else Inr err')
                else Inr err)
      else (case RepositoriesGet p githubClient owner repo of
              (ghRepo, err) \<Rightarrow>
                if \<not> ghRepo
                then Inl (Error (''unknown repository '' @ fullNameFromOwnerAndRepo owner repo))
                else Inr err))"

definition Subscribe ::
    "Plugin \<Rightarrow> string \<Rightarrow> string \<Rightarrow> string \<Rightarrow> string \<Rightarrow> string \<Rightarrow> string \<Rightarrow> SubscriptionFlags
      \<Rightarrow> error option \<times> Plugin" where
  "Subscribe p githubClient userID owner0 repo0 channelID features flags =
     (if owner0 = [] then (Some (Error ''invalid repository''), p)
      else (let owner = ToLower owner0; repo = ToLower repo0
            in if checkOrg p owner \<noteq> None then (Some (Error ''organization not supported''), p)
               else if ExcludeOrgMembersFlag flags \<and> \<not> isOrganizationLocked p
               then (Some (Error ''Unable to set --exclude-org-member flag. The GitHub plugin is not locked to a single organization.''), p)
               else (case lookupTarget p githubClient owner repo of
                       Inl e \<Rightarrow> (Some e, p)
                     | Inr err \<Rightarrow>
                         if err
                         then (Some (Error (''Encountered an error subscribing to ''
                                 @ fullNameFromOwnerAndRepo owner repo)), p)
                         else (let sub = \<lparr>ChannelID = channelID, CreatorID = userID,
                                          Features = features, Flags = flags,
                                          Repository = fullNameFromOwnerAndRepo owner repo\<rparr>
                               in case AddSubscription p (fullNameFromOwnerAndRepo owner repo) sub of
                                    (Some e, p') \<Rightarrow> (Some (Error ''could not add subscription''), p')
                                  | (None, p') \<Rightarrow> (None, p')))))"

definition SubscribeOrg ::
    "Plugin \<Rightarrow> string \<Rightarrow> string \<Rightarrow> string \<Rightarrow> string \<Rightarrow> string \<Rightarrow> SubscriptionFlags
      \<Rightarrow> error option \<times> Plugin" where
  "SubscribeOrg p githubClient userID org channelID features flags =
     (if org = [] then (Some (Error ''invalid organization''), p)
      else Subscribe p githubClient userID org [] channelID features flags)"

subsection \<open>Notification-disabled repositories\<close>

definition GetExcludedNotificationRepos :: "Plugin \<Rightarrow> error + string list" where
  "GetExcludedNotificationRepos p =
     (if KVGetFails p SubscribedRepoNotificationOff
      then Inl (Error ''could not get subscriptions from KVStore'')
      else (case KVNotificationOff p of
              None \<Rightarrow> Inr []
            | Some Malformed \<Rightarrow> Inl (Error ''could not properly decode subscriptions key'')
            | Some (Doc subscriptions) \<Rightarrow> Inr subscriptions))"

text \<open>
  Modelled from the spec: \<open>ItemExists\<close> is not among the sources. The spec speaks of a
  repository being present in the list, names compared as stored; the result is whether
  the name occurs and the index of its first occurrence (-1 when absent), as the sibling
  helpers \<open>contains\<close> and \<open>findInSlice\<close> return.
\<close>

fun ItemExists :: "string list \<Rightarrow> string \<Rightarrow> bool \<times> int" where
  "ItemExists [] item = (False, -1)"
| "ItemExists (a # arr) item =
     (if a = item then (True, 0)
      else (case ItemExists arr item of
              (found, index) \<Rightarrow> if found then (True, index + 1) else (False, -1)))"

definition IsNotificationOff :: "Plugin \<Rightarrow> string \<Rightarrow> bool" where
  "IsNotificationOff p repoName =
     (case GetExcludedNotificationRepos p of
        Inl err \<Rightarrow> False
      | Inr repos \<Rightarrow>
          if length repos = 0 then False
          else fst (ItemExists repos repoName))"

subsection \<open>Permission oracle and subscription matcher\<close>

record Repository =
  FullName :: "string option"
  Private :: bool

text \<open>The nil-safe getters of the client library on a possibly absent repository.\<close>

definition GetFullName :: "Repository option \<Rightarrow> string" where
  "GetFullName repo =
     (case repo of
        None \<Rightarrow> []
      | Some r \<Rightarrow> (case FullName r of None \<Rightarrow> [] | Some n \<Rightarrow> n))"

definition GetPrivate :: "Repository option \<Rightarrow> bool" where
  "GetPrivate repo = (case repo of None \<Rightarrow> False | Some r \<Rightarrow> Private r)"

definition permissionToRepo :: "Plugin \<Rightarrow> string \<Rightarrow> string \<Rightarrow> bool" where
  "permissionToRepo p userID ownerAndRepo =
     (if userID = [] then False
      else (case parseOwnerAndRepo p ownerAndRepo of
              (owner, repo) \<Rightarrow>
                if owner = [] then False
                else if checkOrg p owner \<noteq> None then False
                else (case getGitHubUserInfo p userID of
                        None \<Rightarrow> False
                      | Some info \<Rightarrow>
                          (case RepositoriesGet p info owner repo of
                             (result, err) \<Rightarrow>
                               if \<not> result \<or> err then False else True))))"

definition excludeConfigOrgMember :: "Plugin \<Rightarrow> string \<Rightarrow> Subscription \<Rightarrow> bool" where
  "excludeConfigOrgMember p user subscription =
     (if \<not> ExcludeOrgMembers subscription then False
      else (case getGitHubUserInfo p (CreatorID subscription) of
              None \<Rightarrow> False
            | Some info \<Rightarrow> isUserOrganizationMember p info user))"

definition listOrNil :: "'a list option \<Rightarrow> 'a list" where
  "listOrNil l = (case l of None \<Rightarrow> [] | Some xs \<Rightarrow> xs)"

definition GetSubscribedChannelsForRepository ::
    "Plugin \<Rightarrow> Repository option \<Rightarrow> Subscription list" where
  "GetSubscribedChannelsForRepository p repo =
     (let name = ToLower (GetFullName repo);
          org = (case Split name ''/'' of [] \<Rightarrow> [] | x # _ \<Rightarrow> x)
      in case GetSubscriptions p of
           Inl err \<Rightarrow> []
         | Inr subs \<Rightarrow>
             (let orgKey = fullNameFromOwnerAndRepo org [];
                  subsForRepo = listOrNil (Repositories subs name)
                                @ listOrNil (Repositories subs orgKey)
              in if length subsForRepo = 0 then []
                 else filter (\<lambda>sub. \<not> (GetPrivate repo \<and> \<not> permissionToRepo p (CreatorID sub) name))
                        subsForRepo))"

section \<open>Events\<close>

definition actionOpened :: string where "actionOpened = ''opened''"
definition actionClosed :: string where "actionClosed = ''closed''"
definition actionReopened :: string where "actionReopened = ''reopened''"
definition actionSubmitted :: string where "actionSubmitted = ''submitted''"
definition actionLabeled :: string where "actionLabeled = ''labeled''"
definition actionAssigned :: string where "actionAssigned = ''assigned''"
definition actionCreated :: string where "actionCreated = ''created''"
definition actionDeleted :: string where "actionDeleted = ''deleted''"
definition actionEdited :: string where "actionEdited = ''edited''"

text \<open>
  The parts of an event the routing code reads, each as its nil-safe getter returns it
  (a missing string is empty, a missing list is empty). Users are their login names;
  labels are their names; \<open>IssueCreatedAt\<close> and the clock count nanoseconds.
\<close>

record PullRequest =
  PRUser :: string
  PRLabels :: "string list"
  PRBody :: string
  PRAssignee :: string

record Issue =
  IssueUser :: string
  IssueLabels :: "string list"
  IssueCreatedAt :: int
  IssueAssignees :: "string list"
  IssueHTMLURL :: string

record payload =
  Action :: string
  Repo :: "Repository option"
  Sender :: string
  LabelName :: string
  PullRequestOf :: PullRequest
  IssueOf :: Issue
  CommentBody :: string
  RequestedReviewer :: string
  Assignee :: string
  ReviewState :: string
  RefType :: string
  Commits :: nat

datatype event =
    PullRequestEvent payload
  | IssuesEvent payload
  | IssueCommentEvent payload
  | PullRequestReviewEvent payload
  | PullRequestReviewCommentEvent payload
  | PushEvent payload
  | CreateEvent payload
  | DeleteEvent payload
  | StarEvent payload
  | OtherEvent

text \<open>
  What a handler hands to the message sink: a post to a channel, or a direct message to
  a user, each with the post type the code sets. A delivery that fails is only logged,
  so a message stands for the attempt.
\<close>

datatype message =
    ChannelPost string string
  | DirectPost string string

text \<open>
  Modelled from the spec: \<open>CreateBotDMPost\<close> is not among the sources. The spec lists
  it as the capability to create a direct-message post for a user.
\<close>

definition CreateBotDMPost :: "string \<Rightarrow> string \<Rightarrow> message list" where
  "CreateBotDMPost userID postType = [DirectPost userID postType]"

section \<open>Channel fan-out\<close>

text \<open>
  Each fan-out loop is a function returning the subscriptions that get a post, in order;
  the handler maps them to posts on their channels.
\<close>

fun postPullRequestEvent_loop :: "Plugin \<Rightarrow> payload \<Rightarrow> Subscription list \<Rightarrow> Subscription list" where
  "postPullRequestEvent_loop p event [] = []"
| "postPullRequestEvent_loop p event (sub # subs) =
     (if \<not> Pulls sub \<and> \<not> PullsMerged sub then postPullRequestEvent_loop p event subs
      else if PullsMerged sub \<and> Action event \<noteq> actionClosed
      then postPullRequestEvent_loop p event subs
      else if excludeConfigOrgMember p (Sender event) sub
      then postPullRequestEvent_loop p event subs
      else (let label = Label sub;
                contained = (label \<in> set (PRLabels (PullRequestOf event)))
            in if \<not> contained \<and> label \<noteq> [] then postPullRequestEvent_loop p event subs
               else if Action event = actionLabeled
               then (if label \<noteq> [] \<and> label = LabelName event
                     then (case renderTemplate p ''pullRequestLabelled'' of
                             None \<Rightarrow> []
                           | Some pullRequestLabelledMessage \<Rightarrow>
                               sub # postPullRequestEvent_loop p event subs)
                     else postPullRequestEvent_loop p event subs)
               else sub # postPullRequestEvent_loop p event subs))"

definition postPullRequestEvent :: "Plugin \<Rightarrow> payload \<Rightarrow> message list" where
  "postPullRequestEvent p event =
     (let subs = GetSubscribedChannelsForRepository p (Repo event)
      in if length subs = 0 then []
         else if Action event \<noteq> actionOpened \<and> Action event \<noteq> actionLabeled
                 \<and> Action event \<noteq> actionClosed then []
         else (case renderTemplate p ''newPR'' of
                 None \<Rightarrow> []
               | Some newPRMessage \<Rightarrow>
                   (case renderTemplate p ''closedPR'' of
                      None \<Rightarrow> []
                    | Some closedPRMessage \<Rightarrow>
                        map (\<lambda>sub. ChannelPost (ChannelID sub) ''custom_git_pr'')
                          (postPullRequestEvent_loop p event subs))))"

text \<open>
  Durations are 64-bit counts of nanoseconds. \<open>time.Until\<close> saturates at the ends of
  the range, multiplying by \<open>-1\<close> wraps, and \<open>Seconds() < 4.00\<close> holds exactly for the
  durations below four thousand million nanoseconds.
\<close>

definition minDuration :: int where "minDuration = - (2 ^ 63)"
definition maxDuration :: int where "maxDuration = 2 ^ 63 - 1"

definition timeUntil :: "int \<Rightarrow> int \<Rightarrow> int" where
  "timeUntil now t =
     (let d = t - now
      in if d < minDuration then minDuration
         else if d > maxDuration then maxDuration
         else d)"

definition negateDuration :: "int \<Rightarrow> int" where
  "negateDuration d = (if d = minDuration then minDuration else - d)"

definition secondsBelow4 :: "int \<Rightarrow> bool" where
  "secondsBelow4 d = (d < 4000000000)"

fun postIssueEvent_loop :: "Plugin \<Rightarrow> payload \<Rightarrow> Subscription list \<Rightarrow> Subscription list" where
  "postIssueEvent_loop p event [] = []"
| "postIssueEvent_loop p event (sub # subs) =
     (if \<not> Issues sub \<and> \<not> IssueCreations sub then postIssueEvent_loop p event subs
      else if IssueCreations sub \<and> Action event \<noteq> actionOpened
      then postIssueEvent_loop p event subs
      else if excludeConfigOrgMember p (Sender event) sub
      then postIssueEvent_loop p event subs
      else (let label = Label sub;
                contained = (label \<in> set (IssueLabels (IssueOf event)))
            in if \<not> contained \<and> label \<noteq> [] then postIssueEvent_loop p event subs
               else if Action event = actionLabeled \<and> (label = [] \<or> label \<noteq> LabelName event)
               then postIssueEvent_loop p event subs
               else sub # postIssueEvent_loop p event subs))"

definition issueTemplate :: "string \<Rightarrow> string option" where
  "issueTemplate action =
     (if action = actionOpened then Some ''newIssue''
      else if action = actionClosed then Some ''closedIssue''
      else if action = actionReopened then Some ''reopenedIssue''
      else if action = actionLabeled then Some ''issueLabelled''
      else None)"

definition postIssueEvent :: "Plugin \<Rightarrow> payload \<Rightarrow> message list" where
  "postIssueEvent p event =
     (let timeDiff = negateDuration (timeUntil (clock p) (IssueCreatedAt (IssueOf event)))
      in if Action event = actionLabeled \<and> secondsBelow4 timeDiff then []
         else (let subscribedChannels = GetSubscribedChannelsForRepository p (Repo event)
               in if length subscribedChannels = 0 then []
                  else (case issueTemplate (Action event) of
                          None \<Rightarrow> []
                        | Some template \<Rightarrow>
                            (case renderTemplate p template of
                               None \<Rightarrow> []
                             | Some renderedMessage \<Rightarrow>
                                 map (\<lambda>sub. ChannelPost (ChannelID sub) ''custom_git_issue'')
                                   (postIssueEvent_loop p event subscribedChannels)))))"

definition postPushEvent :: "Plugin \<Rightarrow> payload \<Rightarrow> message list" where
  "postPushEvent p event =
     (let subs = GetSubscribedChannelsForRepository p
                   (Some \<lparr>FullName = Some (GetFullName (Repo event)),
                           Private = GetPrivate (Repo event)\<rparr>)
      in if length subs = 0 then []
         else if Commits event = 0 then []
         else (case renderTemplate p ''pushedCommits'' of
                 None \<Rightarrow> []
               | Some pushedCommitsMessage \<Rightarrow>
                   map (\<lambda>sub. ChannelPost (ChannelID sub) ''custom_git_push'')
                     (filter (\<lambda>sub. Pushes sub \<and> \<not> excludeConfigOrgMember p (Sender event) sub)
                        subs)))"

definition postCreateEvent :: "Plugin \<Rightarrow> payload \<Rightarrow> message list" where
  "postCreateEvent p event =
     (let subs = GetSubscribedChannelsForRepository p (Repo event)
      in if length subs = 0 then []
         else if RefType event \<noteq> ''tag'' \<and> RefType event \<noteq> ''branch'' then []
         else (case renderTemplate p ''newCreateMessage'' of
                 None \<Rightarrow> []
               | Some newCreateMessage \<Rightarrow>
                   map (\<lambda>sub. ChannelPost (ChannelID sub) ''custom_git_create'')
                     (filter (\<lambda>sub. Creates sub \<and> \<not> excludeConfigOrgMember p (Sender event) sub)
                        subs)))"

definition postDeleteEvent :: "Plugin \<Rightarrow> payload \<Rightarrow> message list" where
  "postDeleteEvent p event =
     (let subs = GetSubscribedChannelsForRepository p (Repo event)
      in if length subs = 0 then []
         else if RefType event \<noteq> ''tag'' \<and> RefType event \<noteq> ''branch'' then []
         else (case renderTemplate p ''newDeleteMessage'' of
                 None \<Rightarrow> []
               | Some newDeleteMessage \<Rightarrow>
                   map (\<lambda>sub. ChannelPost (ChannelID sub) ''custom_git_delete'')
                     (filter (\<lambda>sub. Deletes sub \<and> \<not> excludeConfigOrgMember p (Sender event) sub)
                        subs)))"

text \<open>The label filter shared by the comment and review loops.\<close>

definition labelAllows :: "Subscription \<Rightarrow> string list \<Rightarrow> bool" where
  "labelAllows sub labels =
     (let label = Label sub; contained = (label \<in> set labels)
      in \<not> (\<not> contained \<and> label \<noteq> []))"

definition postIssueCommentEvent :: "Plugin \<Rightarrow> payload \<Rightarrow> message list" where
  "postIssueCommentEvent p event =
     (let subs = GetSubscribedChannelsForRepository p (Repo event)
      in if length subs = 0 then []
         else if Action event \<noteq> actionCreated then []
         else (case renderTemplate p ''issueComment'' of
                 None \<Rightarrow> []
               | Some message \<Rightarrow>
                   map (\<lambda>sub. ChannelPost (ChannelID sub) ''custom_git_comment'')
                     (filter (\<lambda>sub. IssueComments sub
                                \<and> \<not> excludeConfigOrgMember p (Sender event) sub
                                \<and> labelAllows sub (IssueLabels (IssueOf event)))
                        subs)))"

definition postPullRequestReviewEvent :: "Plugin \<Rightarrow> payload \<Rightarrow> message list" where
  "postPullRequestReviewEvent p event =
     (let subs = GetSubscribedChannelsForRepository p (Repo event)
      in if length subs = 0 then []
         else if Action event \<noteq> actionSubmitted then []
         else if ReviewState event \<noteq> ''APPROVED'' \<and> ReviewState event \<noteq> ''COMMENTED''
                 \<and> ReviewState event \<noteq> ''CHANGES_REQUESTED'' then []
         else (case renderTemplate p ''pullRequestReviewEvent'' of
                 None \<Rightarrow> []
               | Some newReviewMessage \<Rightarrow>
                   map (\<lambda>sub. ChannelPost (ChannelID sub) ''custom_git_pull_review'')
                     (filter (\<lambda>sub. PullReviews sub
                                \<and> \<not> excludeConfigOrgMember p (Sender event) sub
                                \<and> labelAllows sub (PRLabels (PullRequestOf event)))
                        subs)))"

definition postPullRequestReviewCommentEvent :: "Plugin \<Rightarrow> payload \<Rightarrow> message list" where
  "postPullRequestReviewCommentEvent p event =
     (let subs = GetSubscribedChannelsForRepository p (Repo event)
      in if length subs = 0 then []
         else (case renderTemplate p ''newReviewComment'' of
                 None \<Rightarrow> []
               | Some newReviewMessage \<Rightarrow>
                   map (\<lambda>sub. ChannelPost (ChannelID sub) ''custom_git_pull_review_comment'')
                     (filter (\<lambda>sub. PullReviews sub
                                \<and> \<not> excludeConfigOrgMember p (Sender event) sub
                                \<and> labelAllows sub (PRLabels (PullRequestOf event)))
                        subs)))"

definition postStarEvent :: "Plugin \<Rightarrow> payload \<Rightarrow> message list" where
  "postStarEvent p event =
     (let subs = GetSubscribedChannelsForRepository p (Repo event)
      in if length subs = 0 then []
         else (case renderTemplate p ''newRepoStar'' of
                 None \<Rightarrow> []
               | Some newStarMessage \<Rightarrow>
                   map (\<lambda>sub. ChannelPost (ChannelID sub) ''custom_git_star'')
                     (filter (\<lambda>sub. Stars sub \<and> \<not> excludeConfigOrgMember p (Sender event) sub)
                        subs)))"

section \<open>Actor notifications\<close>

text \<open>
  The loop shared in shape by the two mention handlers: \<open>author\<close> is the login whose
  notification is handled separately (the issue's or the pull request's user).
\<close>

fun mention_loop :: "Plugin \<Rightarrow> payload \<Rightarrow> string \<Rightarrow> string list \<Rightarrow> message list" where
  "mention_loop p event author [] = []"
| "mention_loop p event author (username # mentionedUsernames) =
     (if username = Sender event then mention_loop p event author mentionedUsernames
      else if username = author then mention_loop p event author mentionedUsernames
      else (let userID = getGitHubToUserIDMapping p username
            in if userID = [] then mention_loop p event author mentionedUsernames
               else if GetPrivate (Repo event)
                       \<and> \<not> permissionToRepo p userID (GetFullName (Repo event))
               then mention_loop p event author mentionedUsernames
               else (case GetDirectChannel p userID of
                       None \<Rightarrow> mention_loop p event author mentionedUsernames
                     | Some channel \<Rightarrow>
                         DirectPost userID ''custom_git_mention''
                           # mention_loop p event author mentionedUsernames)))"

definition handlePRDescriptionMentionNotification :: "Plugin \<Rightarrow> payload \<Rightarrow> message list" where
  "handlePRDescriptionMentionNotification p event =
     (if Action event \<noteq> actionOpened then []
      else (let body = PRBody (PullRequestOf event);
                mentionedUsernames = parseGitHubUsernamesFromText p body
            in case renderTemplate p ''pullRequestMentionNotification'' of
                 None \<Rightarrow> []
               | Some message \<Rightarrow>
                   mention_loop p event (PRUser (PullRequestOf event)) mentionedUsernames))"

definition handleCommentMentionNotification :: "Plugin \<Rightarrow> payload \<Rightarrow> message list" where
  "handleCommentMentionNotification p event =
     (if Action event = actionEdited \<or> Action event = actionDeleted then []
      else (let body0 = CommentBody event;
                body = (if Contains body0 ''notifications@github.com''
                        then (case Split body0 [CHR 0x0A, CHR 0x0A, CHR ''O'', CHR ''n''] of
                                [] \<Rightarrow> []
                              | x # _ \<Rightarrow> x)
                        else body0);
                mentionedUsernames = parseGitHubUsernamesFromText p body
            in case renderTemplate p ''commentMentionNotification'' of
                 None \<Rightarrow> []
               | Some message \<Rightarrow>
                   mention_loop p event (IssueUser (IssueOf event)) mentionedUsernames))"

text \<open>
  The next to last segment of the issue's URL, when the URL has at least two segments.
\<close>

definition issueKind :: "string \<Rightarrow> string option" where
  "issueKind url =
     (let splitURL = Split url ''/''
      in if length splitURL < 2 then None
         else Some (splitURL ! (length splitURL - 2)))"

definition handleCommentAuthorNotification :: "Plugin \<Rightarrow> payload \<Rightarrow> message list" where
  "handleCommentAuthorNotification p event =
     (let author = IssueUser (IssueOf event)
      in if author = Sender event then []
         else if Action event = actionEdited \<or> Action event = actionDeleted then []
         else (let authorUserID = getGitHubToUserIDMapping p author
               in if authorUserID = [] then []
                  else if GetPrivate (Repo event)
                          \<and> \<not> permissionToRepo p authorUserID (GetFullName (Repo event))
                  then []
                  else (case issueKind (IssueHTMLURL (IssueOf event)) of
                          None \<Rightarrow> []
                        | Some kind \<Rightarrow>
                            (let templateName =
                                   (if kind = ''pull''
                                    then Some ''commentAuthorPullRequestNotification''
                                    else if kind = ''issues''
                                    then Some ''commentAuthorIssueNotification''
                                    else None)
                             in case templateName of
                                  None \<Rightarrow> []
                                | Some name \<Rightarrow>
                                    if senderMutedByReceiver p authorUserID (Sender event)
                                    then []
                                    else (case renderTemplate p name of
                                            None \<Rightarrow> []
                                          | Some message \<Rightarrow>
                                              CreateBotDMPost authorUserID
                                                ''custom_git_author'')))))"

fun handleCommentAssigneeNotification_loop ::
    "Plugin \<Rightarrow> payload \<Rightarrow> string \<Rightarrow> string list \<Rightarrow> message list" where
  "handleCommentAssigneeNotification_loop p event templateName [] = []"
| "handleCommentAssigneeNotification_loop p event templateName (assignee # assignees) =
     (let userID = getGitHubToUserIDMapping p assignee;
          rest = handleCommentAssigneeNotification_loop p event templateName assignees
      in if userID = [] then rest
         else if IssueUser (IssueOf event) = assignee then rest
         else if Sender event = assignee then rest
         else if \<not> permissionToRepo p userID (GetFullName (Repo event)) then rest
         else (let assigneeID = getGitHubToUserIDMapping p assignee
               in if assigneeID = [] then rest
                  else if senderMutedByReceiver p assigneeID (Sender event) then rest
                  else (case renderTemplate p templateName of
                          None \<Rightarrow> rest
                        | Some message \<Rightarrow>
                            CreateBotDMPost assigneeID ''custom_git_assignee'' @ rest)))"

definition handleCommentAssigneeNotification :: "Plugin \<Rightarrow> payload \<Rightarrow> message list" where
  "handleCommentAssigneeNotification p event =
     (case issueKind (IssueHTMLURL (IssueOf event)) of
        None \<Rightarrow> []
      | Some kind \<Rightarrow>
          (let templateName =
                 (if kind = ''pull'' then Some ''commentAssigneePullRequestNotification''
                  else if kind = ''issues'' then Some ''commentAssigneeIssueNotification''
                  else None)
           in case templateName of
                None \<Rightarrow> []
              | Some name \<Rightarrow>
                  handleCommentAssigneeNotification_loop p event name
                    (IssueAssignees (IssueOf event))))"

definition postIssueNotification :: "string \<Rightarrow> string \<Rightarrow> message list" where
  "postIssueNotification authorUserID assigneeUserID =
     (if length authorUserID > 0 then CreateBotDMPost authorUserID ''custom_git_author'' else [])
     @ (if length assigneeUserID > 0 then CreateBotDMPost assigneeUserID ''custom_git_assigned''
        else [])"

text \<open>
  The user a role resolves to: the mapped identity, emptied when the repository is
  private and the user may not see it.
\<close>

definition resolveUser :: "Plugin \<Rightarrow> payload \<Rightarrow> string \<Rightarrow> string" where
  "resolveUser p event login =
     (let userID = getGitHubToUserIDMapping p login
      in if GetPrivate (Repo event) \<and> \<not> permissionToRepo p userID (GetFullName (Repo event))
         then [] else userID)"

definition handlePullRequestNotification :: "Plugin \<Rightarrow> payload \<Rightarrow> message list" where
  "handlePullRequestNotification p event =
     (let author = PRUser (PullRequestOf event);
          sender = Sender event;
          roles =
            (if Action event = ''review_requested''
             then (let requestedReviewer = RequestedReviewer event
                   in if requestedReviewer = sender then None
                      else Some (resolveUser p event requestedReviewer, [], []))
             else if Action event = actionClosed
             then (if author = sender then None
                   else Some ([], resolveUser p event author, []))
             else if Action event = actionReopened
             then (if author = sender then None
                   else Some ([], resolveUser p event author, []))
             else if Action event = actionAssigned
             then (let assignee = PRAssignee (PullRequestOf event)
                   in if assignee = sender then None
                      else Some ([], [], resolveUser p event assignee))
             else None)
      in case roles of
           None \<Rightarrow> []
         | Some (requestedUserID, authorUserID, assigneeUserID) \<Rightarrow>
             (case renderTemplate p ''pullRequestNotification'' of
                None \<Rightarrow> []
              | Some message \<Rightarrow>
                  (if length requestedUserID > 0
                   then CreateBotDMPost requestedUserID ''custom_git_review_request''
                   else [])
                  @ postIssueNotification authorUserID assigneeUserID))"

definition handleIssueNotification :: "Plugin \<Rightarrow> payload \<Rightarrow> message list" where
  "handleIssueNotification p event =
     (let author = IssueUser (IssueOf event);
          sender = Sender event
      in if author = sender then []
         else (let roles =
                     (if Action event = actionClosed
                      then Some (resolveUser p event author, [])
                      else if Action event = actionReopened
                      then Some (resolveUser p event author, [])
                      else if Action event = actionAssigned
                      then (let assignee = Assignee event
                            in if assignee = sender then None
                               else Some ([], resolveUser p event assignee))
                      else None)
               in case roles of
                    None \<Rightarrow> []
                  | Some (authorUserID, assigneeUserID) \<Rightarrow>
                      (case renderTemplate p ''issueNotification'' of
                         None \<Rightarrow> []
                       | Some message \<Rightarrow> postIssueNotification authorUserID assigneeUserID)))"

definition handlePullRequestReviewNotification :: "Plugin \<Rightarrow> payload \<Rightarrow> message list" where
  "handlePullRequestReviewNotification p event =
     (let author = PRUser (PullRequestOf event)
      in if author = Sender event then []
         else if Action event \<noteq> actionSubmitted then []
         else (let authorUserID = getGitHubToUserIDMapping p author
               in if authorUserID = [] then []
                  else if GetPrivate (Repo event)
                          \<and> \<not> permissionToRepo p authorUserID (GetFullName (Repo event))
                  then []
                  else (case renderTemplate p ''pullRequestReviewNotification'' of
                          None \<Rightarrow> []
                        | Some message \<Rightarrow> CreateBotDMPost authorUserID ''custom_git_review'')))"

section \<open>The webhook pipeline\<close>

text \<open>
  What the request ends with: a panic (a nil pointer is dereferenced when the event
  carries no repository name), or an HTTP status.
\<close>

datatype response = Panic | Status nat

text \<open>\<open>*repo.FullName\<close>: nothing when the repository or its name is nil.\<close>

definition derefFullName :: "Repository option \<Rightarrow> string option" where
  "derefFullName repo = (case repo of None \<Rightarrow> None | Some r \<Rightarrow> FullName r)"

text \<open>
  The end of \<open>handleWebhook\<close>: no repository, or a private one while private
  repositories are not enabled, runs no handler; otherwise the handler runs.
\<close>

definition runHandler :: "Plugin \<Rightarrow> Repository option \<Rightarrow> message list \<Rightarrow> response \<times> message list" where
  "runHandler p repo handler =
     (case repo of
        None \<Rightarrow> (Status 200, [])
      | Some r \<Rightarrow>
          if GetPrivate repo \<and> \<not> EnablePrivateRepo p then (Status 200, [])
          else (Status 200, handler))"

definition ConvertPushEventRepositoryToRepository :: "Repository option \<Rightarrow> Repository" where
  "ConvertPushEventRepositoryToRepository pushRepo =
     \<lparr>FullName = Some (GetFullName pushRepo), Private = GetPrivate pushRepo\<rparr>"

text \<open>The type switch of \<open>handleWebhook\<close> and what follows it.\<close>

fun handleWebhook_switch :: "Plugin \<Rightarrow> event \<Rightarrow> response \<times> message list" where
  "handleWebhook_switch p (PullRequestEvent event) =
     (case derefFullName (Repo event) of
        None \<Rightarrow> (Panic, [])
      | Some fullName \<Rightarrow>
          if IsNotificationOff p fullName then (Status 200, [])
          else runHandler p (Repo event)
                 (postPullRequestEvent p event
                  @ handlePullRequestNotification p event
                  @ handlePRDescriptionMentionNotification p event))"
| "handleWebhook_switch p (IssuesEvent event) =
     (case derefFullName (Repo event) of
        None \<Rightarrow> (Panic, [])
      | Some fullName \<Rightarrow>
          if IsNotificationOff p fullName then (Status 200, [])
          else runHandler p (Repo event)
                 (postIssueEvent p event @ handleIssueNotification p event))"
| "handleWebhook_switch p (IssueCommentEvent event) =
     (case derefFullName (Repo event) of
        None \<Rightarrow> (Panic, [])
      | Some fullName \<Rightarrow>
          if IsNotificationOff p fullName then (Status 200, [])
          else runHandler p (Repo event)
                 (postIssueCommentEvent p event
                  @ handleCommentMentionNotification p event
                  @ handleCommentAuthorNotification p event
                  @ handleCommentAssigneeNotification p event))"
| "handleWebhook_switch p (PullRequestReviewEvent event) =
     (case derefFullName (Repo event) of
        None \<Rightarrow> (Panic, [])
      | Some fullName \<Rightarrow>
          if IsNotificationOff p fullName then (Status 200, [])
          else runHandler p (Repo event)
                 (postPullRequestReviewEvent p event
                  @ handlePullRequestReviewNotification p event))"
| "handleWebhook_switch p (PullRequestReviewCommentEvent event) =
     (case derefFullName (Repo event) of
        None \<Rightarrow> (Panic, [])
      | Some fullName \<Rightarrow>
          if IsNotificationOff p fullName then (Status 200, [])
          else runHandler p (Repo event) (postPullRequestReviewCommentEvent p event))"
| "handleWebhook_switch p (PushEvent event) =
     (let repo = ConvertPushEventRepositoryToRepository (Repo event)
      in case FullName repo of
           None \<Rightarrow> (Panic, [])
         | Some fullName \<Rightarrow>
             if IsNotificationOff p fullName then (Status 200, [])
             else runHandler p (Some repo) (postPushEvent p event))"
| "handleWebhook_switch p (CreateEvent event) =
     (case derefFullName (Repo event) of
        None \<Rightarrow> (Panic, [])
      | Some fullName \<Rightarrow>
          if IsNotificationOff p fullName then (Status 200, [])
          else runHandler p (Repo event) (postCreateEvent p event))"
| "handleWebhook_switch p (DeleteEvent event) =
     (case derefFullName (Repo event) of
        None \<Rightarrow> (Panic, [])
      | Some fullName \<Rightarrow>
          if IsNotificationOff p fullName then (Status 200, [])
          else runHandler p (Repo event) (postDeleteEvent p event))"
| "handleWebhook_switch p (StarEvent event) =
     runHandler p (Repo event) (postStarEvent p event)"
| "handleWebhook_switch p OtherEvent = (Status 200, [])"

text \<open>
  \<open>handleWebhook\<close>: \<open>body\<close> is the request body (nothing when reading it fails),
  \<open>parsed\<close> the result of the client library's parser on it (nothing when it rejects
  the payload), \<open>mac\<close> the keyed hash. The optional event logging sends nothing and is
  left out.
\<close>

definition handleWebhook ::
    "Plugin \<Rightarrow> (byte list \<Rightarrow> byte list \<Rightarrow> byte list) \<Rightarrow> string \<Rightarrow> byte list option
      \<Rightarrow> event option \<Rightarrow> response \<times> message list" where
  "handleWebhook p mac signature body parsed =
     (case body of
        None \<Rightarrow> (Status 400, [])
      | Some bytes \<Rightarrow>
          (case parsed of
             None \<Rightarrow> (Status 400, [])
           | Some event \<Rightarrow>
               (case verifyWebhookSignature mac (WebhookSecret p) signature bytes of
                  Inl err \<Rightarrow> (Status 500, [])
                | Inr valid \<Rightarrow>
                    if \<not> valid then (Status 401, [])
                    else handleWebhook_switch p event)))"

section \<open>Specification predicates and example inputs\<close>

text \<open>At most one subscription per channel under every repository key.\<close>

definition oneSubscriptionPerChannel :: "Subscriptions \<Rightarrow> bool" where
  "oneSubscriptionPerChannel subs =
     (\<forall>repo repoSubs. Repositories subs repo = Some repoSubs
        \<longrightarrow> distinct (map ChannelID repoSubs))"

definition storeInvariant :: "Plugin \<Rightarrow> bool" where
  "storeInvariant p =
     (case KVSubscriptions p of
        Some (Doc subs) \<Rightarrow> oneSubscriptionPerChannel subs
      | _ \<Rightarrow> True)"

text \<open>The list stored under a repository key (empty when there is none).\<close>

definition storedSubscriptions :: "Plugin \<Rightarrow> string \<Rightarrow> Subscription list" where
  "storedSubscriptions p repo =
     (case KVSubscriptions p of
        Some (Doc subs) \<Rightarrow> listOrNil (Repositories subs repo)
      | _ \<Rightarrow> [])"

text \<open>
  A plugin with an empty store in which every collaborator succeeds: every user is
  connected and may see every repository, every login \<open>x\<close> maps to the user \<open>id-x\<close>,
  every template renders, nobody is an organization member, the text parser finds no
  mention, and the installation is not locked to an organization.
\<close>

definition plugin0 :: Plugin where
  "plugin0 =
     \<lparr>WebhookSecret = [],
      EnablePrivateRepo = True,
      KVSubscriptions = None,
      KVNotificationOff = None,
      KVBytes = Map.empty,
      KVGetFails = (\<lambda>key. False),
      KVSetFails = (\<lambda>key. False),
      clock = 0,
      isOrganizationLocked = False,
      checkOrg = (\<lambda>org. None),
      parseOwnerAndRepo = (\<lambda>s. (takeWhile (\<lambda>c. c \<noteq> CHR ''/'') s,
                                   drop 1 (dropWhile (\<lambda>c. c \<noteq> CHR ''/'') s))),
      getGitHubUserInfo = (\<lambda>userID. Some userID),
      RepositoriesGet = (\<lambda>client owner repo. (True, False)),
      OrganizationsGet = (\<lambda>client owner. (True, False)),
      UsersGet = (\<lambda>client owner. (True, False)),
      isUserOrganizationMember = (\<lambda>client user. False),
      getGitHubToUserIDMapping = (\<lambda>login. if login = [] then [] else ''id-'' @ login),
      parseGitHubUsernamesFromText = (\<lambda>text. []),
      renderTemplate = (\<lambda>name. Some name),
      GetDirectChannel = (\<lambda>userID. Some (''dm-'' @ userID))\<rparr>"

definition flags0 :: SubscriptionFlags where
  "flags0 = \<lparr>ExcludeOrgMembersFlag = False, ExcludeOrgRepos = False\<rparr>"

definition mkSub :: "string \<Rightarrow> string \<Rightarrow> string \<Rightarrow> string \<Rightarrow> Subscription" where
  "mkSub channel creator features repo =
     \<lparr>ChannelID = channel, CreatorID = creator, Features = features, Flags = flags0,
      Repository = repo\<rparr>"

definition payload0 :: payload where
  "payload0 =
     \<lparr>Action = [],
      Repo = Some \<lparr>FullName = Some ''acme/widgets'', Private = False\<rparr>,
      Sender = ''alice'',
      LabelName = [],
      PullRequestOf = \<lparr>PRUser = ''bob'', PRLabels = [], PRBody = [], PRAssignee = []\<rparr>,
      IssueOf = \<lparr>IssueUser = ''bob'', IssueLabels = [], IssueCreatedAt = 0,
                 IssueAssignees = [], IssueHTMLURL = ''https://example.com/acme/widgets/issues/1''\<rparr>,
      CommentBody = [],
      RequestedReviewer = [],
      Assignee = [],
      ReviewState = [],
      RefType = [],
      Commits = 0\<rparr>"

text \<open>
  A store with one subscription under a repository's key and one under its
  organization's key, where only the first creator may see repositories.
\<close>

definition pluginPrivate :: Plugin where
  "pluginPrivate =
     plugin0\<lparr>KVSubscriptions :=
               Some (Doc \<lparr>Repositories =
                 [''acme/widgets'' \<mapsto> [mkSub ''chan1'' ''user1'' ''pulls'' ''acme/widgets''],
                  ''acme/'' \<mapsto> [mkSub ''chan2'' ''user2'' ''pulls'' ''acme/'']]\<rparr>),
             RepositoriesGet := (\<lambda>client owner repo. (client = ''user1'', False))\<rparr>"

definition privateRepo :: "Repository option" where
  "privateRepo = Some \<lparr>FullName = Some ''Acme/Widgets'', Private = True\<rparr>"

text \<open>
  A store where channel \<open>chan1\<close> follows pull requests and issues of \<open>acme/widgets\<close>
  that carry the label \<open>bug\<close>, and a labeled event on a pull request or issue that
  carries both \<open>bug\<close> and \<open>feature\<close>.
\<close>

definition subBug :: Subscription where
  "subBug = mkSub ''chan1'' ''user1''
              (''pulls,issues,label:'' @ [CHR 0x22] @ ''bug'' @ [CHR 0x22]) ''acme/widgets''"

definition pluginBug :: Plugin where
  "pluginBug =
     plugin0\<lparr>KVSubscriptions :=
               Some (Doc \<lparr>Repositories = [''acme/widgets'' \<mapsto> [subBug]]\<rparr>),
             clock := 100000000000\<rparr>"

definition labeledEvent :: "string \<Rightarrow> payload" where
  "labeledEvent applied =
     payload0\<lparr>Action := ''labeled'',
              LabelName := applied,
              PullRequestOf := \<lparr>PRUser = ''bob'', PRLabels = [''bug'', ''feature''],
                                PRBody = [], PRAssignee = []\<rparr>,
              IssueOf := \<lparr>IssueUser = ''bob'', IssueLabels = [''bug'', ''feature''],
                          IssueCreatedAt = 0, IssueAssignees = [],
                          IssueHTMLURL = ''https://example.com/acme/widgets/issues/1''\<rparr>\<rparr>"

text \<open>
  A store as \<open>subscribe acme stars,pushes --exclude acme/widgets\<close> leaves it: channel
  \<open>chan1\<close> follows the organization \<open>acme\<close>, and \<open>acme/widgets\<close> is on the
  notification-disabled list.
\<close>

definition pluginStar :: Plugin where
  "pluginStar =
     plugin0\<lparr>KVSubscriptions :=
               Some (Doc \<lparr>Repositories =
                 [''acme/'' \<mapsto> [mkSub ''chan1'' ''user1'' ''stars,pushes'' ''acme/'']]\<rparr>),
             KVNotificationOff := Some (Doc [''acme/widgets''])\<rparr>"

definition zeroSignature :: string where
  "zeroSignature = ''sha1=0000000000000000000000000000000000000000''"

text \<open>
  The users \<open>bob\<close> and \<open>carol\<close> have both muted \<open>alice\<close>; the text parser finds a
  mention of \<open>carol\<close>.
\<close>

definition pluginMuted :: Plugin where
  "pluginMuted =
     plugin0\<lparr>KVBytes := [''id-bob-muted-users'' \<mapsto> ''alice'',
                          ''id-carol-muted-users'' \<mapsto> ''alice''],
             parseGitHubUsernamesFromText := (\<lambda>text. [''carol''])\<rparr>"

definition commentEvent :: payload where
  "commentEvent =
     payload0\<lparr>Action := ''created'',
              CommentBody := ''@carol please look'',
              IssueOf := \<lparr>IssueUser = ''bob'', IssueLabels = [], IssueCreatedAt = 0,
                          IssueAssignees = [''carol''],
                          IssueHTMLURL = ''https://example.com/acme/widgets/issues/1''\<rparr>\<rparr>"

section \<open>Basic facts\<close>

lemma Contains_sublist: "Contains s substr = sublist substr s"
  by (induction s) (auto simp: sublist_Cons_right)

subsection \<open>Hex digits and constant-time comparison\<close>

lemma char_eq_code: "(c = d) = ((of_char c :: nat) = of_char d)"
  by (simp add: of_char_eq_iff)

lemma isHexDigit_code:
  "isHexDigit c = (let n = (of_char c :: nat) in
     (48 \<le> n \<and> n \<le> 57) \<or> (97 \<le> n \<and> n \<le> 102) \<or> (65 \<le> n \<and> n \<le> 70))"
proof -
  have "isHexDigit c = ((of_char c :: nat) \<in> {48,49,50,51,52,53,54,55,56,57,
      97,98,99,100,101,102,65,66,67,68,69,70})"
    unfolding isHexDigit_def by (simp add: char_eq_code [of c])
  also have "\<dots> = (let n = (of_char c :: nat) in
     (48 \<le> n \<and> n \<le> 57) \<or> (97 \<le> n \<and> n \<le> 102) \<or> (65 \<le> n \<and> n \<le> 70))"
    unfolding Let_def insert_iff empty_iff by arith
  finally show ?thesis .
qed

lemma fromHexChar_None_iff: "(fromHexChar c = None) = (\<not> isHexDigit c)"
  unfolding isHexDigit_code by (simp add: fromHexChar_def Let_def)

lemma xor_zero_iff: "((a::byte) XOR b = 0) = (a = b)"
proof
  assume h: "a XOR b = 0"
  have "a = (a XOR b) XOR b" by (simp add: xor.assoc)
  also have "\<dots> = b" by (simp add: h)
  finally show "a = b" .
next
  assume "a = b"
  then show "a XOR b = 0" by simp
qed

lemma fold_or_zero:
  "length x = length y \<Longrightarrow>
   (fold (\<lambda>(a, b) v. v OR (a XOR b)) (zip x y) (v::byte) = 0) = (v = 0 \<and> x = y)"
proof (induction x y arbitrary: v rule: list_induct2)
  case Nil
  show ?case by simp
next
  case (Cons a x b y)
  have "(v OR (a XOR b) = 0) = (v = 0 \<and> a = b)"
    by (simp add: or_eq_0_iff xor_zero_iff)
  with Cons.IH [of "v OR (a XOR b)"] show ?case
    by (simp del: or_eq_0_iff)
qed

lemma hmacEqual_eq: "hmacEqual x y = (x = y)"
  by (auto simp: hmacEqual_def fold_or_zero)

lemma HasPrefix_prefix: "HasPrefix s p = prefix p s"
proof
  assume "HasPrefix s p"
  then have "s = p @ drop (length p) s"
    by (metis HasPrefix_def append_take_drop_id)
  then show "prefix p s" by (metis prefixI)
next
  assume "prefix p s"
  then show "HasPrefix s p" by (auto simp: HasPrefix_def prefix_def)
qed

lemma low_nibble_take_bit: "(b::byte) AND 15 = take_bit 4 b"
proof -
  have "(15::byte) = mask 4" by (simp add: mask_eq_exp_minus_1)
  then show ?thesis by (simp add: take_bit_eq_mask)
qed

lemma nibbles_join: "push_bit 4 (drop_bit 4 (b::byte)) OR (b AND 15) = b"
  unfolding low_nibble_take_bit
  by (rule bit_eqI) (auto simp: bit_or_iff bit_push_bit_iff bit_drop_bit_eq bit_take_bit_iff)

lemma unat_high_nibble: "unat (drop_bit 4 (b::byte)) < 16"
proof -
  have "unat b < 256" using unsigned_less [of b] by simp
  then have "unat b div 16 < 16" by arith
  then show ?thesis by (simp add: unat_drop_bit_eq drop_bit_eq_div unat_div)
qed

lemma unat_low_nibble: "unat ((b::byte) AND 15) < 16"
proof -
  have "unat (take_bit 4 b) = take_bit 4 (unat b)" by (simp add: unsigned_take_bit_eq)
  then show ?thesis unfolding low_nibble_take_bit by (simp add: take_bit_eq_mod)
qed

lemma fromHexChar_digit:
  "k < 16 \<Longrightarrow> fromHexChar (''0123456789abcdef'' ! k) = Some (of_nat k)"
proof -
  assume "k < 16"
  then have "k = 0 \<or> k = 1 \<or> k = 2 \<or> k = 3 \<or> k = 4 \<or> k = 5 \<or> k = 6 \<or> k = 7 \<or> k = 8
      \<or> k = 9 \<or> k = 10 \<or> k = 11 \<or> k = 12 \<or> k = 13 \<or> k = 14 \<or> k = 15" by arith
  then show ?thesis by (auto simp: fromHexChar_def)
qed

lemma fromHexChar_hexDigit: "unat n < 16 \<Longrightarrow> fromHexChar (hexDigit n) = Some n"
  using fromHexChar_digit [of "unat n"] by (simp add: hexDigit_def)

lemma hexDecode_hexEncode: "hexDecode (hexEncode d) = Inr d"
proof (induction d)
  case Nil
  show ?case by (simp add: hexEncode_def)
next
  case (Cons b bs)
  have "hexEncode (b # bs) = hexDigit (drop_bit 4 b) # hexDigit (b AND 15) # hexEncode bs"
    by (simp add: hexEncode_def)
  with Cons show ?case
    by (simp add: fromHexChar_hexDigit unat_high_nibble unat_low_nibble nibbles_join)
qed

lemma length_hexEncode: "length (hexEncode d) = 2 * length d"
  by (induction d) (simp_all add: hexEncode_def)

lemma hexDecode_length: "hexDecode s = Inr d \<Longrightarrow> length s = 2 * length d"
  by (induction s arbitrary: d rule: hexDecode.induct)
     (auto split: option.splits sum.splits)

lemma isHexDigit_Some: "isHexDigit c \<Longrightarrow> \<exists>a. fromHexChar c = Some a"
  using fromHexChar_None_iff [of c] by auto

lemma hexDecode_ok:
  "even (length s) \<Longrightarrow> \<forall>c\<in>set s. isHexDigit c \<Longrightarrow> \<exists>d. hexDecode s = Inr d"
proof (induction s rule: hexDecode.induct)
  case 1
  show ?case by simp
next
  case (2 p)
  then show ?case by simp
next
  case (3 p q rest)
  from "3.prems" obtain a b where ab: "fromHexChar p = Some a" "fromHexChar q = Some b"
    using isHexDigit_Some [of p] isHexDigit_Some [of q] by auto
  from "3.prems" have "even (length rest)" "\<forall>c\<in>set rest. isHexDigit c" by simp_all
  with "3.IH" [OF ab] obtain d where "hexDecode rest = Inr d" by blast
  with ab show ?case by simp
qed

lemma hexDecode_bad:
  "\<exists>c\<in>set s. \<not> isHexDigit c \<Longrightarrow> \<exists>e. hexDecode s = Inl e"
proof (induction s rule: hexDecode.induct)
  case 1
  then show ?case by simp
next
  case (2 p)
  then show ?case by (simp split: option.splits)
next
  case (3 p q rest)
  show ?case
  proof (cases "fromHexChar p")
    case None
    then show ?thesis by simp
  next
    case (Some a)
    note a = this
    show ?thesis
    proof (cases "fromHexChar q")
      case None
      with a show ?thesis by simp
    next
      case (Some b)
      with a "3.prems" have "\<exists>c\<in>set rest. \<not> isHexDigit c"
        using fromHexChar_None_iff [of p] fromHexChar_None_iff [of q] by auto
      with "3.IH" [OF a Some] obtain e where "hexDecode rest = Inl e" by blast
      with a Some show ?thesis by simp
    qed
  qed
qed

subsection \<open>The subscription store\<close>

lemma replaceExisting_snd:
  "snd (replaceExisting rs sub) = (ChannelID sub \<in> ChannelID ` set rs)"
  by (induction rs) (auto split: prod.splits)

lemma replaceExisting_map:
  "map ChannelID (fst (replaceExisting rs sub)) = map ChannelID rs"
  by (induction rs) (auto split: prod.splits)

lemma replaceExisting_absent:
  "ChannelID sub \<notin> ChannelID ` set rs \<Longrightarrow> fst (replaceExisting rs sub) = rs"
  by (induction rs) (auto split: prod.splits)

lemma filter_absent:
  "c \<notin> ChannelID ` set rs \<Longrightarrow> filter (\<lambda>s. ChannelID s = c) rs = []"
  by (induction rs) auto

lemma replaceExisting_filter:
  "distinct (map ChannelID rs) \<Longrightarrow> ChannelID sub \<in> ChannelID ` set rs \<Longrightarrow>
     filter (\<lambda>s. ChannelID s = ChannelID sub) (fst (replaceExisting rs sub)) = [sub]"
proof (induction rs)
  case Nil
  then show ?case by simp
next
  case (Cons r rs)
  show ?case
  proof (cases "ChannelID r = ChannelID sub")
    case True
    with Cons.prems have "ChannelID sub \<notin> ChannelID ` set rs" by auto
    with True show ?thesis by (simp add: filter_absent)
  next
    case False
    with Cons show ?thesis by (auto split: prod.splits)
  qed
qed

text \<open>The list \<open>AddSubscription\<close> writes back under the key.\<close>

lemma AddSubscription_result:
  "AddSubscription p repo sub =
     (case GetSubscriptions p of
        Inl err \<Rightarrow> (Some (Error ''could not get subscriptions''), p)
      | Inr subs \<Rightarrow>
          (let old = listOrNil (Repositories subs repo);
               new = (if ChannelID sub \<in> ChannelID ` set old
                      then fst (replaceExisting old sub) else old @ [sub])
           in if KVSetFails p SubscriptionsKey
              then (Some (Error ''could not store subscriptions''), p)
              else (None, p\<lparr>KVSubscriptions :=
                      Some (Doc (subs\<lparr>Repositories := (Repositories subs)(repo \<mapsto> new)\<rparr>))\<rparr>)))"
proof (cases "GetSubscriptions p")
  case (Inl e)
  then show ?thesis by (simp add: AddSubscription_def)
next
  case (Inr subs)
  show ?thesis
  proof (cases "Repositories subs repo")
    case None
    with Inr show ?thesis
      by (simp add: AddSubscription_def StoreSubscriptions_def listOrNil_def Let_def)
  next
    case (Some rs)
    obtain rs' ex where r: "replaceExisting rs sub = (rs', ex)" by (cases "replaceExisting rs sub")
    from r have ex: "ex = (ChannelID sub \<in> ChannelID ` set rs)"
      using replaceExisting_snd [of rs sub] by simp
    from r have abs: "\<not> ex \<Longrightarrow> rs' = rs"
      using replaceExisting_absent [of sub rs] ex by simp
    from Inr Some r ex abs show ?thesis
      by (auto simp: AddSubscription_def StoreSubscriptions_def listOrNil_def Let_def)
  qed
qed

lemma GetSubscriptions_invariant:
  "storeInvariant p \<Longrightarrow> GetSubscriptions p = Inr subs \<Longrightarrow> oneSubscriptionPerChannel subs"
  by (auto simp: storeInvariant_def GetSubscriptions_def oneSubscriptionPerChannel_def
        split: if_splits option.splits stored.splits)

lemma GetSubscriptions_stored:
  "GetSubscriptions p = Inr subs \<Longrightarrow>
     listOrNil (Repositories subs key) = storedSubscriptions p key"
  by (auto simp: GetSubscriptions_def storedSubscriptions_def listOrNil_def
        split: if_splits option.splits stored.splits)

lemma distinct_stored:
  "storeInvariant p \<Longrightarrow> distinct (map ChannelID (storedSubscriptions p repo))"
  by (auto simp: storeInvariant_def storedSubscriptions_def oneSubscriptionPerChannel_def
        listOrNil_def split: option.splits stored.splits)

lemma AddSubscription_ok:
  assumes "fst (AddSubscription p repo sub) = None"
  shows "\<exists>subs. GetSubscriptions p = Inr subs
     \<and> snd (AddSubscription p repo sub) =
         p\<lparr>KVSubscriptions := Some (Doc (subs\<lparr>Repositories := (Repositories subs)(repo \<mapsto>
            (if ChannelID sub \<in> ChannelID ` set (storedSubscriptions p repo)
             then fst (replaceExisting (storedSubscriptions p repo) sub)
             else storedSubscriptions p repo @ [sub]))\<rparr>))\<rparr>"
proof (cases "GetSubscriptions p")
  case (Inl e)
  with assms show ?thesis by (simp add: AddSubscription_result)
next
  case (Inr subs)
  with assms show ?thesis
    by (simp add: AddSubscription_result Let_def GetSubscriptions_stored [OF Inr]
          split: if_splits)
qed

lemma AddSubscription_failed:
  "fst (AddSubscription p repo sub) \<noteq> None \<Longrightarrow> snd (AddSubscription p repo sub) = p"
  by (cases "GetSubscriptions p")
     (simp_all add: AddSubscription_result Let_def split: if_splits)

lemma AddSubscription_step:
  fixes p :: Plugin and repo :: string and sub :: Subscription
  defines "p' \<equiv> snd (AddSubscription p repo sub)"
  defines "old \<equiv> storedSubscriptions p repo"
  assumes inv: "storeInvariant p"
  shows "storeInvariant p'"
    and "fst (AddSubscription p repo sub) = None \<Longrightarrow>
           filter (\<lambda>s. ChannelID s = ChannelID sub) (storedSubscriptions p' repo) = [sub]"
    and "fst (AddSubscription p repo sub) = None \<Longrightarrow> ChannelID sub \<in> ChannelID ` set old \<Longrightarrow>
           map ChannelID (storedSubscriptions p' repo) = map ChannelID old"
    and "fst (AddSubscription p repo sub) = None \<Longrightarrow> ChannelID sub \<notin> ChannelID ` set old \<Longrightarrow>
           storedSubscriptions p' repo = old @ [sub]"
    and "fst (AddSubscription p repo sub) \<noteq> None \<Longrightarrow> p' = p"
proof -
  show f: "fst (AddSubscription p repo sub) \<noteq> None \<Longrightarrow> p' = p"
    unfolding p'_def by (rule AddSubscription_failed)
  define new where "new = (if ChannelID sub \<in> ChannelID ` set old
                      then fst (replaceExisting old sub) else old @ [sub])"
  have d: "distinct (map ChannelID old)"
    unfolding old_def using inv by (rule distinct_stored)
  have dn: "distinct (map ChannelID new)"
    using d by (auto simp: new_def replaceExisting_map)
  have fn: "filter (\<lambda>s. ChannelID s = ChannelID sub) new = [sub]"
    using d by (auto simp: new_def replaceExisting_filter filter_absent)
  have k: "\<exists>subs. GetSubscriptions p = Inr subs \<and> KVSubscriptions p' =
                Some (Doc (subs\<lparr>Repositories := (Repositories subs)(repo \<mapsto> new)\<rparr>))"
    if "fst (AddSubscription p repo sub) = None"
    using AddSubscription_ok [OF that] unfolding p'_def new_def old_def by auto
  have ok: "storedSubscriptions p' repo = new"
    if "fst (AddSubscription p repo sub) = None"
    using k [OF that] by (auto simp: storedSubscriptions_def listOrNil_def)
  show "storeInvariant p'"
  proof (cases "fst (AddSubscription p repo sub) = None")
    case False
    with f inv show ?thesis by simp
  next
    case True
    from k [OF True] obtain subs where g: "GetSubscriptions p = Inr subs"
      and k': "KVSubscriptions p' =
                Some (Doc (subs\<lparr>Repositories := (Repositories subs)(repo \<mapsto> new)\<rparr>))"
      by blast
    from GetSubscriptions_invariant [OF inv g] dn k' show ?thesis
      by (auto simp: storeInvariant_def oneSubscriptionPerChannel_def)
  qed
  show "fst (AddSubscription p repo sub) = None \<Longrightarrow>
           filter (\<lambda>s. ChannelID s = ChannelID sub) (storedSubscriptions p' repo) = [sub]"
    using ok fn by simp
  show "fst (AddSubscription p repo sub) = None \<Longrightarrow> ChannelID sub \<in> ChannelID ` set old \<Longrightarrow>
           map ChannelID (storedSubscriptions p' repo) = map ChannelID old"
    using ok by (simp add: new_def replaceExisting_map)
  show "fst (AddSubscription p repo sub) = None \<Longrightarrow> ChannelID sub \<notin> ChannelID ` set old \<Longrightarrow>
           storedSubscriptions p' repo = old @ [sub]"
    using ok by (simp add: new_def)
qed

lemma storeInvariant_initial: "KVSubscriptions p = None \<Longrightarrow> storeInvariant p"
  by (simp add: storeInvariant_def)

lemma removeFirst_distinct:
  "distinct (map ChannelID rs) \<Longrightarrow> distinct (map ChannelID (fst (removeFirst rs c)))"
proof (induction rs)
  case Nil
  show ?case by simp
next
  case (Cons r rs)
  have "set (fst (removeFirst rs c)) \<subseteq> set rs"
    by (induction rs) (auto split: prod.splits)
  with Cons show ?case by (auto split: prod.splits)
qed

lemma Unsubscribe_storeInvariant:
  assumes inv: "storeInvariant p"
  shows "storeInvariant (snd (Unsubscribe p channelID repo))"
proof -
  obtain owner0 repo1 where pr: "parseOwnerAndRepo p repo = (owner0, repo1)"
    by (cases "parseOwnerAndRepo p repo")
  show ?thesis
  proof (cases "GetSubscriptions p")
    case (Inl e)
    with pr inv show ?thesis by (simp add: Unsubscribe_def Let_def)
  next
    case (Inr subs)
    note one = GetSubscriptions_invariant [OF inv Inr]
    show ?thesis
    proof (cases "Repositories subs (ToLower owner0 @ ''/'' @ ToLower repo1)")
      case None
      with pr Inr inv show ?thesis by (simp add: Unsubscribe_def Let_def)
    next
      case (Some rs)
      with one have "distinct (map ChannelID rs)"
        by (auto simp: oneSubscriptionPerChannel_def)
      then have d: "distinct (map ChannelID (fst (removeFirst rs channelID)))"
        by (rule removeFirst_distinct)
      obtain rs' removed where r: "removeFirst rs channelID = (rs', removed)"
        by (cases "removeFirst rs channelID")
      with d have d': "distinct (map ChannelID rs')" by simp
      from one d' have "oneSubscriptionPerChannel
          (subs\<lparr>Repositories := (Repositories subs)(ToLower owner0 @ ''/'' @ ToLower repo1 \<mapsto> rs')\<rparr>)"
        by (auto simp: oneSubscriptionPerChannel_def)
      with pr Inr Some r inv show ?thesis
        by (auto simp: Unsubscribe_def Let_def StoreSubscriptions_def storeInvariant_def)
    qed
  qed
qed

lemma Subscribe_storeInvariant:
  assumes inv: "storeInvariant p"
  shows "storeInvariant (snd (Subscribe p client userID owner repo channelID features flags))"
proof -
  have "\<And>r s. storeInvariant (snd (AddSubscription p r s))"
    using AddSubscription_step(1) [OF inv] .
  then have "\<And>r s e p'. AddSubscription p r s = (e, p') \<Longrightarrow> storeInvariant p'"
    by (metis snd_conv)
  with inv show ?thesis
    by (auto simp: Subscribe_def Let_def split: sum.splits prod.splits option.splits)
qed

subsection \<open>The subscription matcher\<close>

lemma GetSubscribedChannelsForRepository_mem:
  assumes "sub \<in> set (GetSubscribedChannelsForRepository p repo)"
  shows "(GetPrivate repo \<longrightarrow> permissionToRepo p (CreatorID sub) (ToLower (GetFullName repo)))
     \<and> (sub \<in> set (storedSubscriptions p (ToLower (GetFullName repo)))
        \<or> (\<exists>org. sub \<in> set (storedSubscriptions p (fullNameFromOwnerAndRepo org []))))"
proof (cases "GetSubscriptions p")
  case (Inl e)
  with assms show ?thesis
    by (simp add: GetSubscribedChannelsForRepository_def Let_def)
next
  case (Inr subs)
  define name where "name = ToLower (GetFullName repo)"
  define orgKey where
    "orgKey = fullNameFromOwnerAndRepo (case Split name ''/'' of [] \<Rightarrow> [] | x # _ \<Rightarrow> x) []"
  from assms Inr have
    "sub \<in> set (filter (\<lambda>sub. \<not> (GetPrivate repo \<and> \<not> permissionToRepo p (CreatorID sub) name))
        (storedSubscriptions p name @ storedSubscriptions p orgKey))"
    by (simp add: GetSubscribedChannelsForRepository_def Let_def name_def orgKey_def
          GetSubscriptions_stored [OF Inr] split: if_splits)
  then have "(GetPrivate repo \<longrightarrow> permissionToRepo p (CreatorID sub) name)
      \<and> (sub \<in> set (storedSubscriptions p name) \<or> sub \<in> set (storedSubscriptions p orgKey))"
    by auto
  then show ?thesis
    unfolding name_def orgKey_def by blast
qed

subsection \<open>Fan-out loops\<close>

lemma postPullRequestEvent_loop_labeled:
  "Action event = actionLabeled \<Longrightarrow> sub \<in> set (postPullRequestEvent_loop p event subs) \<Longrightarrow>
     sub \<in> set subs \<and> Label sub \<noteq> [] \<and> Label sub = LabelName event"
  by (induction subs) (auto simp: Let_def split: if_splits option.splits)

lemma postIssueEvent_loop_labeled:
  "Action event = actionLabeled \<Longrightarrow> sub \<in> set (postIssueEvent_loop p event subs) \<Longrightarrow>
     sub \<in> set subs \<and> Label sub \<noteq> [] \<and> Label sub = LabelName event"
  by (induction subs) (auto simp: Let_def split: if_splits)

lemma postPullRequestEvent_messages:
  "m \<in> set (postPullRequestEvent p event) \<Longrightarrow>
     \<exists>sub \<in> set (postPullRequestEvent_loop p event
                    (GetSubscribedChannelsForRepository p (Repo event))).
       m = ChannelPost (ChannelID sub) ''custom_git_pr''"
  by (auto simp: postPullRequestEvent_def Let_def split: if_splits option.splits)

lemma postIssueEvent_messages:
  "m \<in> set (postIssueEvent p event) \<Longrightarrow>
     \<exists>sub \<in> set (postIssueEvent_loop p event
                    (GetSubscribedChannelsForRepository p (Repo event))).
       m = ChannelPost (ChannelID sub) ''custom_git_issue''"
  by (auto simp: postIssueEvent_def Let_def split: if_splits option.splits)

lemma Label_subBug: "Label subBug = ''bug''"
  by (simp add: Label_def subBug_def mkSub_def Split.simps)

subsection \<open>The kill-switch in the webhook pipeline\<close>

lemma kill_switch_checked_kinds:
  assumes "derefFullName (Repo event) = Some fullName" and "IsNotificationOff p fullName"
  shows "handleWebhook_switch p (PullRequestEvent event) = (Status 200, [])"
    and "handleWebhook_switch p (IssuesEvent event) = (Status 200, [])"
    and "handleWebhook_switch p (IssueCommentEvent event) = (Status 200, [])"
    and "handleWebhook_switch p (PullRequestReviewEvent event) = (Status 200, [])"
    and "handleWebhook_switch p (PullRequestReviewCommentEvent event) = (Status 200, [])"
    and "handleWebhook_switch p (CreateEvent event) = (Status 200, [])"
    and "handleWebhook_switch p (DeleteEvent event) = (Status 200, [])"
  using assms by simp_all

lemma kill_switch_push:
  "IsNotificationOff p (GetFullName (Repo event)) \<Longrightarrow>
     handleWebhook_switch p (PushEvent event) = (Status 200, [])"
  by (simp add: ConvertPushEventRepositoryToRepository_def)

lemma permissionToRepo_off:
  "permissionToRepo (p\<lparr>KVNotificationOff := off\<rparr>) userID name = permissionToRepo p userID name"
  by (simp add: permissionToRepo_def split: option.splits prod.splits)

lemma excludeConfigOrgMember_off:
  "excludeConfigOrgMember (p\<lparr>KVNotificationOff := off\<rparr>) user sub
     = excludeConfigOrgMember p user sub"
  by (simp add: excludeConfigOrgMember_def split: option.splits)

lemma GetSubscribedChannelsForRepository_off:
  "GetSubscribedChannelsForRepository (p\<lparr>KVNotificationOff := off\<rparr>) repo
     = GetSubscribedChannelsForRepository p repo"
  by (simp add: GetSubscribedChannelsForRepository_def GetSubscriptions_def permissionToRepo_off
        Let_def split: sum.splits)

lemma postStarEvent_off:
  "postStarEvent (p\<lparr>KVNotificationOff := off\<rparr>) event = postStarEvent p event"
  by (simp add: postStarEvent_def GetSubscribedChannelsForRepository_off
        excludeConfigOrgMember_off Let_def split: option.splits)

lemma star_never_asks_kill_switch:
  "handleWebhook_switch (p\<lparr>KVNotificationOff := off\<rparr>) (StarEvent event)
     = handleWebhook_switch p (StarEvent event)"
  by (auto simp: runHandler_def postStarEvent_off split: option.splits)

subsection \<open>Actor notifications and the mute list\<close>

lemma permissionToRepo_kv:
  "permissionToRepo (p\<lparr>KVBytes := kv\<rparr>) userID name = permissionToRepo p userID name"
  by (simp add: permissionToRepo_def split: option.splits prod.splits)

lemma resolveUser_kv:
  "resolveUser (p\<lparr>KVBytes := kv\<rparr>) event login = resolveUser p event login"
  by (simp add: resolveUser_def permissionToRepo_kv)

lemma mention_loop_kv:
  "mention_loop (p\<lparr>KVBytes := kv\<rparr>) event author names = mention_loop p event author names"
  by (induction names) (simp_all add: permissionToRepo_kv Let_def split: option.splits)

lemma handleCommentAuthorNotification_muted:
  "m \<in> set (handleCommentAuthorNotification p event) \<Longrightarrow>
     \<exists>userID. m = DirectPost userID ''custom_git_author''
       \<and> \<not> senderMutedByReceiver p userID (Sender event)"
  by (auto simp: handleCommentAuthorNotification_def CreateBotDMPost_def Let_def
        split: if_splits option.splits)

lemma handleCommentAssigneeNotification_loop_muted:
  "m \<in> set (handleCommentAssigneeNotification_loop p event name assignees) \<Longrightarrow>
     \<exists>userID. m = DirectPost userID ''custom_git_assignee''
       \<and> \<not> senderMutedByReceiver p userID (Sender event)"
  by (induction assignees)
     (auto simp: CreateBotDMPost_def Let_def split: if_splits option.splits)

lemma handleCommentAssigneeNotification_muted:
  "m \<in> set (handleCommentAssigneeNotification p event) \<Longrightarrow>
     \<exists>userID. m = DirectPost userID ''custom_git_assignee''
       \<and> \<not> senderMutedByReceiver p userID (Sender event)"
  using handleCommentAssigneeNotification_loop_muted
  by (auto simp: handleCommentAssigneeNotification_def Let_def split: if_splits option.splits)

lemma issueKind_example:
  "issueKind ''https://example.com/acme/widgets/issues/1'' = Some ''issues''"
  by (simp add: issueKind_def Split.simps)

section \<open>Claims\<close>

subsection \<open>C3: the signature verifier\<close>

text \<open>
  Claim C3. For every keyed hash, secret, signature header and body:
  a header whose length is not 45 or that lacks the prefix \<open>sha1=\<close> gives \<open>false\<close>
  and no error; a header of the right shape whose 40-character suffix holds a character
  that is not a hex digit gives an error; otherwise the suffix decodes to a 20-byte
  digest and the result is \<open>true\<close> exactly when the keyed hash of the raw body under the
  secret equals that digest. In particular the header \<open>sha1=\<close> followed by the hex of
  a 20-byte digest \<open>sent\<close> verifies exactly when \<open>sent\<close> is the keyed hash of the body
  that arrived.
\<close>

theorem verifyWebhookSignature_contract:
  "(length signature \<noteq> 45 \<or> \<not> prefix ''sha1='' signature \<longrightarrow>
      verifyWebhookSignature mac secret signature body = Inr False)
   \<and> (length signature = 45 \<and> prefix ''sha1='' signature
        \<and> (\<exists>c\<in>set (drop 5 signature). \<not> isHexDigit c) \<longrightarrow>
      (\<exists>e. verifyWebhookSignature mac secret signature body = Inl e))
   \<and> (length signature = 45 \<and> prefix ''sha1='' signature
        \<and> (\<forall>c\<in>set (drop 5 signature). isHexDigit c) \<longrightarrow>
      (\<exists>digest. hexDecode (drop 5 signature) = Inr digest \<and> length digest = 20
         \<and> verifyWebhookSignature mac secret signature body
             = Inr (mac secret body = digest)))
   \<and> (length sent = 20 \<longrightarrow>
      verifyWebhookSignature mac secret (''sha1='' @ hexEncode sent) body
        = Inr (mac secret body = sent))"
proof (intro conjI impI)
  assume "length signature \<noteq> 45 \<or> \<not> prefix ''sha1='' signature"
  then show "verifyWebhookSignature mac secret signature body = Inr False"
    by (auto simp: verifyWebhookSignature_def HasPrefix_prefix)
next
  assume a: "length signature = 45 \<and> prefix ''sha1='' signature
        \<and> (\<exists>c\<in>set (drop 5 signature). \<not> isHexDigit c)"
  then obtain e where "hexDecode (drop 5 signature) = Inl e"
    using hexDecode_bad by blast
  with a show "\<exists>e. verifyWebhookSignature mac secret signature body = Inl e"
    by (simp add: verifyWebhookSignature_def HasPrefix_prefix)
next
  assume a: "length signature = 45 \<and> prefix ''sha1='' signature
        \<and> (\<forall>c\<in>set (drop 5 signature). isHexDigit c)"
  then have "even (length (drop 5 signature))" by simp
  with a obtain d where d: "hexDecode (drop 5 signature) = Inr d"
    using hexDecode_ok by blast
  from hexDecode_length [OF d] a have "length d = 20" by simp
  with a d show "\<exists>digest. hexDecode (drop 5 signature) = Inr digest \<and> length digest = 20
         \<and> verifyWebhookSignature mac secret signature body = Inr (mac secret body = digest)"
    by (simp add: verifyWebhookSignature_def HasPrefix_prefix signBody_def hmacEqual_eq)
next
  assume "length sent = 20"
  then have "length (''sha1='' @ hexEncode sent) = 45" "HasPrefix (''sha1='' @ hexEncode sent) ''sha1=''"
    by (simp_all add: length_hexEncode HasPrefix_prefix)
  then show "verifyWebhookSignature mac secret (''sha1='' @ hexEncode sent) body
        = Inr (mac secret body = sent)"
    by (simp add: verifyWebhookSignature_def signBody_def hmacEqual_eq hexDecode_hexEncode)
qed

theorem verifyWebhookSignature_contract_witness:
  "verifyWebhookSignature mac0 [1, 2] ''sha1=0102ff0000000000000000000000000000000000'' [255] = Inr True
   \<and> verifyWebhookSignature mac0 [1, 2] ''sha1=0102ff0000000000000000000000000000000000'' [254] = Inr False
   \<and> verifyWebhookSignature mac0 [1, 2] ''sha1=0102ff'' [255] = Inr False
   \<and> (\<exists>e. verifyWebhookSignature mac0 [1, 2] ''sha1=0102fg0000000000000000000000000000000000'' [255] = Inl e)"
  using verifyWebhookSignature_contract [of "''sha1=0102ff0000000000000000000000000000000000''" mac0 "[1,2]" "[255]" "[]"]
    verifyWebhookSignature_contract [of "''sha1=0102ff0000000000000000000000000000000000''" mac0 "[1,2]" "[254]" "[]"]
    verifyWebhookSignature_contract [of "''sha1=0102ff''" mac0 "[1,2]" "[255]" "[]"]
    verifyWebhookSignature_contract [of "''sha1=0102fg0000000000000000000000000000000000''" mac0 "[1,2]" "[255]" "[]"]
  by (simp add: mac0_def isHexDigit_def fromHexChar_def)

subsection \<open>C9: the mute check is a substring test\<close>

text \<open>
  Claim C9, as amended. For every receiver and sender, whenever reading the receiver's
  mute list succeeds, \<open>senderMutedByReceiver\<close> is true exactly when the sender's
  username occurs as a contiguous substring of the stored comma-joined mute string (so
  \<open>alice\<close> counts as muted once \<open>malice\<close> is on the list); a receiver with no stored
  list has the empty mute string. When reading the stored list fails, the error is
  ignored and the test runs on the empty string. On the empty string, stored, absent
  or left by a failed read, the result is false for every sender with a non-empty
  username, and true for the empty username.
\<close>

theorem senderMutedByReceiver_substring:
  "(snd (KVGet p (userID @ ''-muted-users'')) = None \<longrightarrow>
      senderMutedByReceiver p userID sender
        = sublist sender (bytesToString (fst (KVGet p (userID @ ''-muted-users'')))))
   \<and> (KVGet p (userID @ ''-muted-users'') = (Some muted, None) \<longrightarrow>
      senderMutedByReceiver p userID sender = sublist sender muted)
   \<and> (KVGet p (userID @ ''-muted-users'') = (None, None) \<longrightarrow>
      senderMutedByReceiver p userID sender = (sender = []))
   \<and> (snd (KVGet p (userID @ ''-muted-users'')) \<noteq> None \<longrightarrow>
      senderMutedByReceiver p userID sender = (sender = []))"
proof -
  have always: "senderMutedByReceiver p userID sender
        = sublist sender (bytesToString (fst (KVGet p (userID @ ''-muted-users''))))"
    by (simp add: senderMutedByReceiver_def Contains_sublist)
  have failed: "fst (KVGet p (userID @ ''-muted-users'')) = None"
    if "snd (KVGet p (userID @ ''-muted-users'')) \<noteq> None"
    using that by (simp add: KVGet_def split: if_splits)
  have 1: "snd (KVGet p (userID @ ''-muted-users'')) = None \<longrightarrow>
      senderMutedByReceiver p userID sender
        = sublist sender (bytesToString (fst (KVGet p (userID @ ''-muted-users''))))"
    using always by simp
  have 2: "KVGet p (userID @ ''-muted-users'') = (Some muted, None) \<longrightarrow>
      senderMutedByReceiver p userID sender = sublist sender muted"
    using always by (simp add: bytesToString_def)
  have 3: "KVGet p (userID @ ''-muted-users'') = (None, None) \<longrightarrow>
      senderMutedByReceiver p userID sender = (sender = [])"
    using always by (simp add: bytesToString_def)
  have 4: "snd (KVGet p (userID @ ''-muted-users'')) \<noteq> None \<longrightarrow>
      senderMutedByReceiver p userID sender = (sender = [])"
    using always failed by (simp add: bytesToString_def)
  from 1 2 3 4 show ?thesis by blast
qed

theorem senderMutedByReceiver_substring_witness:
  "senderMutedByReceiver (snd (handleMuteAdd plugin0 ''malice'' ''user1'')) ''user1'' ''alice''
   \<and> \<not> senderMutedByReceiver (snd (handleMuteAdd plugin0 ''malice'' ''user1'')) ''user1'' ''bob''
   \<and> \<not> senderMutedByReceiver plugin0 ''user1'' ''alice''
   \<and> \<not> senderMutedByReceiver (plugin0\<lparr>KVGetFails := (\<lambda>key. True)\<rparr>) ''user1'' ''alice''"
proof -
  let ?p1 = "snd (handleMuteAdd plugin0 ''malice'' ''user1'')"
  let ?pf = "plugin0\<lparr>KVGetFails := (\<lambda>key. True)\<rparr>"
  have kv: "KVGet ?p1 (''user1'' @ ''-muted-users'') = (Some ''malice'', None)"
    by (simp add: handleMuteAdd_def getMutedUsernames_def KVGet_def KVSet_def plugin0_def
          bytesToString_def)
  have ok: "snd (KVGet ?p1 (''user1'' @ ''-muted-users'')) = None"
    "bytesToString (fst (KVGet ?p1 (''user1'' @ ''-muted-users''))) = ''malice''"
    using kv by (simp_all add: bytesToString_def)
  have absent: "KVGet plugin0 (''user1'' @ ''-muted-users'') = (None, None)"
    by (simp add: KVGet_def plugin0_def)
  have err: "snd (KVGet ?pf (''user1'' @ ''-muted-users'')) \<noteq> None"
    by (simp add: KVGet_def)
  have alice: "sublist ''alice'' ''malice''"
    by (simp add: Contains_sublist [symmetric])
  have bob: "\<not> sublist ''bob'' ''malice''"
    by (simp add: Contains_sublist [symmetric])
  from senderMutedByReceiver_substring [of ?p1 "''user1''" "''alice''" "''malice''"] kv alice
  have 1: "senderMutedByReceiver ?p1 ''user1'' ''alice''" by (simp add: bytesToString_def)
  from senderMutedByReceiver_substring [of ?p1 "''user1''" "''bob''" "''malice''"] ok bob
  have 2: "\<not> senderMutedByReceiver ?p1 ''user1'' ''bob''" by (simp add: bytesToString_def)
  from senderMutedByReceiver_substring [of plugin0 "''user1''" "''alice''" "[]"] absent
  have 3: "\<not> senderMutedByReceiver plugin0 ''user1'' ''alice''" by (simp add: bytesToString_def)
  from senderMutedByReceiver_substring [of ?pf "''user1''" "''alice''" "[]"] err
  have 4: "\<not> senderMutedByReceiver ?pf ''user1'' ''alice''" by (simp add: bytesToString_def)
  from 1 2 3 4 show ?thesis by blast
qed

text \<open>
  The claim as first stated has the check return false whenever reading errors; with an
  empty sender name it returns true.
\<close>

theorem senderMutedByReceiver_read_error_counterexample:
  "snd (KVGet (plugin0\<lparr>KVGetFails := (\<lambda>key. True)\<rparr>) (''user1'' @ ''-muted-users'')) \<noteq> None
   \<and> senderMutedByReceiver (plugin0\<lparr>KVGetFails := (\<lambda>key. True)\<rparr>) ''user1'' [] = True"
  by (simp add: senderMutedByReceiver_def KVGet_def bytesToString_def)

subsection \<open>C10: feature predicates are substring tests\<close>

text \<open>
  Claim C10. For every subscription whose features string contains \<open>pulls_merged\<close>,
  \<open>Pulls\<close> is true as well, since \<open>pulls\<close> is a substring of \<open>pulls_merged\<close>. In the
  fan-out of a pull-request event the two are told apart only by the action: such a
  subscription gets nothing unless the action is \<open>closed\<close>, and for \<open>closed\<close> it gets
  the post once the organization-member exclusion and the label filter let it through.
\<close>

theorem PullsMerged_implies_Pulls:
  "Contains (Features sub) ''pulls_merged'' \<longrightarrow>
     Pulls sub
     \<and> (Action event \<noteq> actionClosed \<longrightarrow> postPullRequestEvent_loop p event [sub] = [])
     \<and> (Action event = actionClosed \<and> \<not> excludeConfigOrgMember p (Sender event) sub
          \<and> labelAllows sub (PRLabels (PullRequestOf event)) \<longrightarrow>
        postPullRequestEvent_loop p event [sub] = [sub])"
proof
  assume m: "Contains (Features sub) ''pulls_merged''"
  have "sublist ''pulls'' ''pulls_merged''"
    by (simp add: Contains_sublist [symmetric])
  with m have pulls: "Pulls sub"
    unfolding Pulls_def featurePulls_def Contains_sublist
    by (rule sublist_order.order_trans [rotated])
  from m have merged: "PullsMerged sub" by (simp add: PullsMerged_def)
  have closed_ne: "actionClosed \<noteq> actionLabeled"
    by (simp add: actionClosed_def actionLabeled_def)
  show "Pulls sub
     \<and> (Action event \<noteq> actionClosed \<longrightarrow> postPullRequestEvent_loop p event [sub] = [])
     \<and> (Action event = actionClosed \<and> \<not> excludeConfigOrgMember p (Sender event) sub
          \<and> labelAllows sub (PRLabels (PullRequestOf event)) \<longrightarrow>
        postPullRequestEvent_loop p event [sub] = [sub])"
    using pulls merged closed_ne by (auto simp: labelAllows_def Let_def)
qed

theorem PullsMerged_implies_Pulls_witness:
  "Pulls (mkSub ''chan1'' ''user1'' ''pulls_merged'' ''acme/widgets'')
   \<and> postPullRequestEvent_loop plugin0 (payload0\<lparr>Action := ''opened''\<rparr>)
        [mkSub ''chan1'' ''user1'' ''pulls_merged'' ''acme/widgets''] = []
   \<and> postPullRequestEvent_loop plugin0 (payload0\<lparr>Action := ''closed''\<rparr>)
        [mkSub ''chan1'' ''user1'' ''pulls_merged'' ''acme/widgets'']
      = [mkSub ''chan1'' ''user1'' ''pulls_merged'' ''acme/widgets'']"
proof -
  let ?sub = "mkSub ''chan1'' ''user1'' ''pulls_merged'' ''acme/widgets''"
  let ?opened = "payload0\<lparr>Action := ''opened''\<rparr>"
  let ?closed = "payload0\<lparr>Action := ''closed''\<rparr>"
  have m: "Contains (Features ?sub) ''pulls_merged''"
    by (simp add: mkSub_def)
  have o: "Action ?opened \<noteq> actionClosed"
    by (simp add: actionClosed_def)
  have c: "Action ?closed = actionClosed"
    by (simp add: actionClosed_def)
  have x: "\<not> excludeConfigOrgMember plugin0 (Sender ?closed) ?sub"
    by (simp add: excludeConfigOrgMember_def ExcludeOrgMembers_def mkSub_def flags0_def)
  have "Label ?sub = []"
    by (simp add: Label_def mkSub_def)
  then have l: "labelAllows ?sub (PRLabels (PullRequestOf ?closed))"
    by (simp add: labelAllows_def)
  from PullsMerged_implies_Pulls [of ?sub ?opened plugin0] m o
  have 1: "Pulls ?sub \<and> postPullRequestEvent_loop plugin0 ?opened [?sub] = []"
    by blast
  from PullsMerged_implies_Pulls [of ?sub ?closed plugin0] m c x l
  have 2: "postPullRequestEvent_loop plugin0 ?closed [?sub] = [?sub]"
    by blast
  from 1 2 show ?thesis by blast
qed

subsection \<open>C8: the exclude-org-member flag needs an organization lock\<close>

text \<open>
  Claim C8. For every subscribe operation whose flags include \<open>excludeOrgMembers\<close>
  while the installation is not locked to a single organization, \<open>Subscribe\<close> returns
  an error and leaves the plugin, and so the subscription store, as it was.
\<close>

theorem Subscribe_exclude_needs_lock:
  "ExcludeOrgMembersFlag flags \<and> \<not> isOrganizationLocked p \<longrightarrow>
     (\<exists>e. fst (Subscribe p githubClient userID owner repo channelID features flags) = Some e)
     \<and> snd (Subscribe p githubClient userID owner repo channelID features flags) = p"
  by (auto simp: Subscribe_def Let_def)

theorem Subscribe_exclude_needs_lock_witness:
  "(\<exists>e. fst (Subscribe plugin0 ''user1'' ''user1'' ''acme'' ''widgets'' ''chan1'' ''pulls''
        (flags0\<lparr>ExcludeOrgMembersFlag := True\<rparr>)) = Some e)
   \<and> snd (Subscribe plugin0 ''user1'' ''user1'' ''acme'' ''widgets'' ''chan1'' ''pulls''
        (flags0\<lparr>ExcludeOrgMembersFlag := True\<rparr>)) = plugin0
   \<and> KVSubscriptions (snd (Subscribe plugin0 ''user1'' ''user1'' ''acme'' ''widgets'' ''chan1''
        ''pulls'' (flags0\<lparr>ExcludeOrgMembersFlag := True\<rparr>))) = None"
proof -
  have f: "ExcludeOrgMembersFlag (flags0\<lparr>ExcludeOrgMembersFlag := True\<rparr>)" by simp
  have l: "\<not> isOrganizationLocked plugin0" by (simp add: plugin0_def)
  have k: "KVSubscriptions plugin0 = None" by (simp add: plugin0_def)
  from Subscribe_exclude_needs_lock [of "flags0\<lparr>ExcludeOrgMembersFlag := True\<rparr>" plugin0
      "''user1''" "''user1''" "''acme''" "''widgets''" "''chan1''" "''pulls''"] f l k
  show ?thesis by simp
qed

subsection \<open>C4: private repositories and the permission oracle\<close>

text \<open>
  Claim C4. For every private repository, every subscription the matcher returns is a
  candidate stored under the repository's key or under its organization's key, and the
  permission oracle, asked with that subscription's creator and the lower-cased
  repository name, says the creator can see the repository. A creator who cannot is
  left out of the result; the matcher returns a list and has no error result.
\<close>

theorem GetSubscribedChannelsForRepository_private:
  "GetPrivate repo \<and> sub \<in> set (GetSubscribedChannelsForRepository p repo) \<longrightarrow>
     permissionToRepo p (CreatorID sub) (ToLower (GetFullName repo))
     \<and> (sub \<in> set (storedSubscriptions p (ToLower (GetFullName repo)))
        \<or> (\<exists>org. sub \<in> set (storedSubscriptions p (fullNameFromOwnerAndRepo org []))))"
  using GetSubscribedChannelsForRepository_mem [of sub p repo] by blast

theorem GetSubscribedChannelsForRepository_private_witness:
  "GetPrivate privateRepo
   \<and> GetSubscribedChannelsForRepository pluginPrivate privateRepo
       = [mkSub ''chan1'' ''user1'' ''pulls'' ''acme/widgets'']
   \<and> storedSubscriptions pluginPrivate ''acme/''
       = [mkSub ''chan2'' ''user2'' ''pulls'' ''acme/'']
   \<and> \<not> permissionToRepo pluginPrivate ''user2'' ''acme/widgets''
   \<and> permissionToRepo pluginPrivate
        (CreatorID (mkSub ''chan1'' ''user1'' ''pulls'' ''acme/widgets''))
        (ToLower (GetFullName privateRepo))"
proof -
  let ?sub = "mkSub ''chan1'' ''user1'' ''pulls'' ''acme/widgets''"
  have lower: "ToLower ''Acme/Widgets'' = ''acme/widgets''"
    by (simp add: ToLower_def lower_char_def char_eq_code)
  have split: "Split ''acme/widgets'' ''/'' = [''acme'', ''widgets'']"
    by (simp add: Split.simps)
  have priv: "GetPrivate privateRepo"
    by (simp add: GetPrivate_def privateRepo_def)
  have res: "GetSubscribedChannelsForRepository pluginPrivate privateRepo = [?sub]"
    by (simp add: GetSubscribedChannelsForRepository_def GetFullName_def privateRepo_def
          lower split GetSubscriptions_def pluginPrivate_def plugin0_def SubscriptionsKey_def
          listOrNil_def fullNameFromOwnerAndRepo_def GetPrivate_def permissionToRepo_def
          mkSub_def)
  have org: "storedSubscriptions pluginPrivate ''acme/'' = [mkSub ''chan2'' ''user2'' ''pulls'' ''acme/'']"
    by (simp add: storedSubscriptions_def pluginPrivate_def listOrNil_def)
  have no: "\<not> permissionToRepo pluginPrivate ''user2'' ''acme/widgets''"
    by (simp add: permissionToRepo_def pluginPrivate_def plugin0_def)
  from GetSubscribedChannelsForRepository_private [of privateRepo ?sub pluginPrivate] priv res
  have "permissionToRepo pluginPrivate (CreatorID ?sub) (ToLower (GetFullName privateRepo))"
    by simp
  with priv res org no show ?thesis by blast
qed

subsection \<open>C6: at most one subscription per channel and repository\<close>

text \<open>
  Claim C6. The store keeps at most one subscription per channel under every repository
  key: every add operation on a store with that property leaves a store with it,
  whether the operation succeeds or fails (and the store as first read, holding no
  value yet, has it). After a successful add of \<open>sub\<close> under \<open>repo\<close> the list of that
  key holds exactly one subscription of the channel, namely \<open>sub\<close>; when the channel
  had an entry the new one takes its place (the channels of the list, in order, are
  unchanged), and only otherwise is the list extended by one. A failed add leaves the
  plugin as it was. So a second successful add for the same channel and key leaves
  exactly one subscription of the channel, the second.
\<close>

theorem AddSubscription_one_per_channel:
  "storeInvariant p \<longrightarrow>
     storeInvariant (snd (AddSubscription p repo sub))
     \<and> (fst (AddSubscription p repo sub) = None \<longrightarrow>
          filter (\<lambda>s. ChannelID s = ChannelID sub)
            (storedSubscriptions (snd (AddSubscription p repo sub)) repo) = [sub]
          \<and> (ChannelID sub \<in> ChannelID ` set (storedSubscriptions p repo) \<longrightarrow>
               map ChannelID (storedSubscriptions (snd (AddSubscription p repo sub)) repo)
                 = map ChannelID (storedSubscriptions p repo))
          \<and> (ChannelID sub \<notin> ChannelID ` set (storedSubscriptions p repo) \<longrightarrow>
               storedSubscriptions (snd (AddSubscription p repo sub)) repo
                 = storedSubscriptions p repo @ [sub])
          \<and> (ChannelID sub2 = ChannelID sub
                \<and> fst (AddSubscription (snd (AddSubscription p repo sub)) repo sub2) = None \<longrightarrow>
               filter (\<lambda>s. ChannelID s = ChannelID sub)
                 (storedSubscriptions
                    (snd (AddSubscription (snd (AddSubscription p repo sub)) repo sub2)) repo)
                 = [sub2]))
     \<and> (fst (AddSubscription p repo sub) \<noteq> None \<longrightarrow> snd (AddSubscription p repo sub) = p)"
proof
  assume inv: "storeInvariant p"
  note step = AddSubscription_step [OF inv, of repo sub]
  have inv': "storeInvariant (snd (AddSubscription p repo sub))"
    by (rule step(1))
  have second: "filter (\<lambda>s. ChannelID s = ChannelID sub)
                 (storedSubscriptions
                    (snd (AddSubscription (snd (AddSubscription p repo sub)) repo sub2)) repo)
                 = [sub2]"
    if "ChannelID sub2 = ChannelID sub"
      and "fst (AddSubscription (snd (AddSubscription p repo sub)) repo sub2) = None"
    using AddSubscription_step(2) [OF inv', of repo sub2] that by simp
  from step second
  show "storeInvariant (snd (AddSubscription p repo sub))
     \<and> (fst (AddSubscription p repo sub) = None \<longrightarrow>
          filter (\<lambda>s. ChannelID s = ChannelID sub)
            (storedSubscriptions (snd (AddSubscription p repo sub)) repo) = [sub]
          \<and> (ChannelID sub \<in> ChannelID ` set (storedSubscriptions p repo) \<longrightarrow>
               map ChannelID (storedSubscriptions (snd (AddSubscription p repo sub)) repo)
                 = map ChannelID (storedSubscriptions p repo))
          \<and> (ChannelID sub \<notin> ChannelID ` set (storedSubscriptions p repo) \<longrightarrow>
               storedSubscriptions (snd (AddSubscription p repo sub)) repo
                 = storedSubscriptions p repo @ [sub])
          \<and> (ChannelID sub2 = ChannelID sub
                \<and> fst (AddSubscription (snd (AddSubscription p repo sub)) repo sub2) = None \<longrightarrow>
               filter (\<lambda>s. ChannelID s = ChannelID sub)
                 (storedSubscriptions
                    (snd (AddSubscription (snd (AddSubscription p repo sub)) repo sub2)) repo)
                 = [sub2]))
     \<and> (fst (AddSubscription p repo sub) \<noteq> None \<longrightarrow> snd (AddSubscription p repo sub) = p)"
    by blast
qed

theorem AddSubscription_one_per_channel_witness:
  "storeInvariant plugin0
   \<and> fst (AddSubscription plugin0 ''acme/widgets''
            (mkSub ''chan1'' ''user1'' ''pulls'' ''acme/widgets'')) = None
   \<and> fst (AddSubscription
            (snd (AddSubscription plugin0 ''acme/widgets''
                    (mkSub ''chan1'' ''user1'' ''pulls'' ''acme/widgets'')))
            ''acme/widgets'' (mkSub ''chan1'' ''user1'' ''issues'' ''acme/widgets'')) = None
   \<and> filter (\<lambda>s. ChannelID s = ''chan1'')
        (storedSubscriptions
           (snd (AddSubscription
                   (snd (AddSubscription plugin0 ''acme/widgets''
                           (mkSub ''chan1'' ''user1'' ''pulls'' ''acme/widgets'')))
                   ''acme/widgets'' (mkSub ''chan1'' ''user1'' ''issues'' ''acme/widgets'')))
           ''acme/widgets'')
      = [mkSub ''chan1'' ''user1'' ''issues'' ''acme/widgets'']"
proof -
  let ?s1 = "mkSub ''chan1'' ''user1'' ''pulls'' ''acme/widgets''"
  let ?s2 = "mkSub ''chan1'' ''user1'' ''issues'' ''acme/widgets''"
  let ?p1 = "snd (AddSubscription plugin0 ''acme/widgets'' ?s1)"
  have i: "storeInvariant plugin0"
    by (simp add: storeInvariant_def plugin0_def)
  have a1: "fst (AddSubscription plugin0 ''acme/widgets'' ?s1) = None"
    by (simp add: AddSubscription_def GetSubscriptions_def StoreSubscriptions_def plugin0_def)
  have p1: "?p1 = plugin0\<lparr>KVSubscriptions :=
                Some (Doc \<lparr>Repositories = [''acme/widgets'' \<mapsto> [?s1]]\<rparr>)\<rparr>"
    by (simp add: AddSubscription_def GetSubscriptions_def StoreSubscriptions_def plugin0_def)
  have a2: "fst (AddSubscription ?p1 ''acme/widgets'' ?s2) = None"
    unfolding p1
    by (simp add: AddSubscription_def GetSubscriptions_def StoreSubscriptions_def plugin0_def
          mkSub_def)
  have c: "ChannelID ?s2 = ChannelID ?s1" "ChannelID ?s1 = ''chan1''"
    by (simp_all add: mkSub_def)
  from AddSubscription_one_per_channel [of plugin0 "''acme/widgets''" ?s1 ?s2] i a1 a2 c
  show ?thesis by simp
qed

subsection \<open>C5: label filters on labeled events\<close>

text \<open>
  Claim C5. For every pull-request or issue event with action \<open>labeled\<close>, a
  subscription gets the event's post only when it carries a label filter and the label
  the event itself applies equals that filter; so every channel message of such an
  event goes to a matched subscription whose filter is the applied label. An event that
  applies another label produces no message for the subscription, whatever labels the
  issue or pull request already carries.
\<close>

theorem labeled_event_needs_own_label:
  "Action event = actionLabeled \<longrightarrow>
     (\<forall>sub \<in> set (postPullRequestEvent_loop p event subs) \<union> set (postIssueEvent_loop p event subs).
        Label sub \<noteq> [] \<and> Label sub = LabelName event)
     \<and> (\<forall>m \<in> set (postPullRequestEvent p event) \<union> set (postIssueEvent p event).
          \<exists>sub \<in> set (GetSubscribedChannelsForRepository p (Repo event)).
            (m = ChannelPost (ChannelID sub) ''custom_git_pr''
               \<or> m = ChannelPost (ChannelID sub) ''custom_git_issue'')
            \<and> Label sub \<noteq> [] \<and> Label sub = LabelName event)"
proof
  assume a: "Action event = actionLabeled"
  have 1: "\<forall>sub \<in> set (postPullRequestEvent_loop p event subs) \<union> set (postIssueEvent_loop p event subs).
        Label sub \<noteq> [] \<and> Label sub = LabelName event"
    using postPullRequestEvent_loop_labeled [OF a] postIssueEvent_loop_labeled [OF a] by blast
  have 2: "\<exists>sub \<in> set (GetSubscribedChannelsForRepository p (Repo event)).
            (m = ChannelPost (ChannelID sub) ''custom_git_pr''
               \<or> m = ChannelPost (ChannelID sub) ''custom_git_issue'')
            \<and> Label sub \<noteq> [] \<and> Label sub = LabelName event"
    if "m \<in> set (postPullRequestEvent p event) \<union> set (postIssueEvent p event)" for m
  proof -
    from that consider "m \<in> set (postPullRequestEvent p event)"
      | "m \<in> set (postIssueEvent p event)" by blast
    then show ?thesis
    proof cases
      case 1
      from postPullRequestEvent_messages [OF 1] obtain sub where
        s: "sub \<in> set (postPullRequestEvent_loop p event
                    (GetSubscribedChannelsForRepository p (Repo event)))"
        and m: "m = ChannelPost (ChannelID sub) ''custom_git_pr''" by blast
      from postPullRequestEvent_loop_labeled [OF a s] m show ?thesis by blast
    next
      case 2
      from postIssueEvent_messages [OF 2] obtain sub where
        s: "sub \<in> set (postIssueEvent_loop p event
                    (GetSubscribedChannelsForRepository p (Repo event)))"
        and m: "m = ChannelPost (ChannelID sub) ''custom_git_issue''" by blast
      from postIssueEvent_loop_labeled [OF a s] m show ?thesis by blast
    qed
  qed
  from 1 2 show "(\<forall>sub \<in> set (postPullRequestEvent_loop p event subs) \<union> set (postIssueEvent_loop p event subs).
        Label sub \<noteq> [] \<and> Label sub = LabelName event)
     \<and> (\<forall>m \<in> set (postPullRequestEvent p event) \<union> set (postIssueEvent p event).
          \<exists>sub \<in> set (GetSubscribedChannelsForRepository p (Repo event)).
            (m = ChannelPost (ChannelID sub) ''custom_git_pr''
               \<or> m = ChannelPost (ChannelID sub) ''custom_git_issue'')
            \<and> Label sub \<noteq> [] \<and> Label sub = LabelName event)"
    by blast
qed

lemma subBug_features:
  "Pulls subBug" "\<not> PullsMerged subBug" "Issues subBug" "\<not> IssueCreations subBug"
  "\<not> excludeConfigOrgMember p user subBug"
  by (simp_all add: Pulls_def PullsMerged_def Issues_def IssueCreations_def featurePulls_def
        featureIssues_def subBug_def mkSub_def excludeConfigOrgMember_def ExcludeOrgMembers_def
        flags0_def)

lemma pluginBug_matches:
  "GetSubscribedChannelsForRepository pluginBug (Repo (labeledEvent applied)) = [subBug]"
proof -
  have lower: "ToLower ''acme/widgets'' = ''acme/widgets''"
    by (simp add: ToLower_def lower_char_def char_eq_code)
  have split: "Split ''acme/widgets'' ''/'' = [''acme'', ''widgets'']"
    by (simp add: Split.simps)
  show ?thesis
    by (simp add: GetSubscribedChannelsForRepository_def GetFullName_def labeledEvent_def
          payload0_def lower split GetSubscriptions_def pluginBug_def plugin0_def
          SubscriptionsKey_def listOrNil_def fullNameFromOwnerAndRepo_def GetPrivate_def)
qed

lemma labeledEvent_fields:
  "Action (labeledEvent applied) = actionLabeled"
  "LabelName (labeledEvent applied) = applied"
  "PRLabels (PullRequestOf (labeledEvent applied)) = [''bug'', ''feature'']"
  "IssueLabels (IssueOf (labeledEvent applied)) = [''bug'', ''feature'']"
  "IssueCreatedAt (IssueOf (labeledEvent applied)) = 0"
  by (simp_all add: labeledEvent_def actionLabeled_def)

lemma pluginBug_fields:
  "renderTemplate pluginBug name = Some name" "clock pluginBug = 100000000000"
  by (simp_all add: pluginBug_def plugin0_def)

lemma pluginBug_loops:
  "postPullRequestEvent_loop pluginBug (labeledEvent ''bug'') [subBug] = [subBug]"
  "postPullRequestEvent_loop pluginBug (labeledEvent ''feature'') [subBug] = []"
  "postIssueEvent_loop pluginBug (labeledEvent ''bug'') [subBug] = [subBug]"
  "postIssueEvent_loop pluginBug (labeledEvent ''feature'') [subBug] = []"
  by (simp_all add: subBug_features Label_subBug labeledEvent_fields pluginBug_fields)

lemma pluginBug_posts:
  "postPullRequestEvent pluginBug (labeledEvent ''bug'') = [ChannelPost ''chan1'' ''custom_git_pr'']"
  "postPullRequestEvent pluginBug (labeledEvent ''feature'') = []"
  "postIssueEvent pluginBug (labeledEvent ''bug'') = [ChannelPost ''chan1'' ''custom_git_issue'']"
  "postIssueEvent pluginBug (labeledEvent ''feature'') = []"
proof -
  have t: "\<not> secondsBelow4 (negateDuration (timeUntil 100000000000 0))"
    by (simp add: secondsBelow4_def negateDuration_def timeUntil_def minDuration_def
          maxDuration_def)
  have c: "ChannelID subBug = ''chan1''" by (simp add: subBug_def mkSub_def)
  have i: "issueTemplate actionLabeled = Some ''issueLabelled''"
    by (simp add: issueTemplate_def actionLabeled_def actionOpened_def actionClosed_def
          actionReopened_def)
  show "postPullRequestEvent pluginBug (labeledEvent ''bug'') = [ChannelPost ''chan1'' ''custom_git_pr'']"
    "postPullRequestEvent pluginBug (labeledEvent ''feature'') = []"
    by (simp_all add: postPullRequestEvent_def pluginBug_matches pluginBug_loops
          labeledEvent_fields pluginBug_fields c
          del: postPullRequestEvent_loop.simps)
  show "postIssueEvent pluginBug (labeledEvent ''bug'') = [ChannelPost ''chan1'' ''custom_git_issue'']"
    "postIssueEvent pluginBug (labeledEvent ''feature'') = []"
    by (simp_all add: postIssueEvent_def pluginBug_matches pluginBug_loops
          labeledEvent_fields pluginBug_fields c t i
          del: postIssueEvent_loop.simps)
qed

theorem labeled_event_needs_own_label_witness:
  "Action (labeledEvent ''bug'') = actionLabeled
   \<and> postPullRequestEvent pluginBug (labeledEvent ''bug'') = [ChannelPost ''chan1'' ''custom_git_pr'']
   \<and> postIssueEvent pluginBug (labeledEvent ''bug'') = [ChannelPost ''chan1'' ''custom_git_issue'']
   \<and> Label subBug = LabelName (labeledEvent ''bug'')
   \<and> ''bug'' \<in> set (PRLabels (PullRequestOf (labeledEvent ''feature'')))
   \<and> ''bug'' \<in> set (IssueLabels (IssueOf (labeledEvent ''feature'')))
   \<and> postPullRequestEvent pluginBug (labeledEvent ''feature'') = []
   \<and> postIssueEvent pluginBug (labeledEvent ''feature'') = []"
proof -
  have a: "Action (labeledEvent ''bug'') = actionLabeled"
    by (rule labeledEvent_fields)
  have m: "subBug \<in> set (postPullRequestEvent_loop pluginBug (labeledEvent ''bug'') [subBug])
             \<union> set (postIssueEvent_loop pluginBug (labeledEvent ''bug'') [subBug])"
    unfolding pluginBug_loops by simp
  from labeled_event_needs_own_label [of "labeledEvent ''bug''" pluginBug "[subBug]"] a m
  have "Label subBug = LabelName (labeledEvent ''bug'')" by blast
  with a show ?thesis
    by (simp add: pluginBug_posts labeledEvent_fields)
qed

subsection \<open>C7: labels applied right after an issue is created\<close>

text \<open>
  Claim C7. For every issue event with action \<open>labeled\<close> whose issue was created less
  than four seconds before the event is processed, the pipeline produces no message: the
  channel fan-out returns before looking at any subscription, the actor notification
  has no case for the labeled action, and so the whole handler run for the event sends
  nothing.
\<close>

theorem labeled_issue_within_4_seconds:
  "Action event = actionLabeled
     \<and> clock p - IssueCreatedAt (IssueOf event) < 4000000000 \<longrightarrow>
     postIssueEvent p event = []
     \<and> handleIssueNotification p event = []
     \<and> snd (handleWebhook_switch p (IssuesEvent event)) = []"
proof
  assume a: "Action event = actionLabeled
     \<and> clock p - IssueCreatedAt (IssueOf event) < 4000000000"
  then have "secondsBelow4 (negateDuration (timeUntil (clock p) (IssueCreatedAt (IssueOf event))))"
    by (auto simp: secondsBelow4_def negateDuration_def timeUntil_def minDuration_def
          maxDuration_def Let_def)
  with a have 1: "postIssueEvent p event = []"
    by (simp add: postIssueEvent_def Let_def)
  from a have 2: "handleIssueNotification p event = []"
    by (simp add: handleIssueNotification_def Let_def actionLabeled_def actionClosed_def
          actionReopened_def actionAssigned_def)
  from 1 2 have 3: "snd (handleWebhook_switch p (IssuesEvent event)) = []"
    by (simp add: runHandler_def split: option.splits)
  from 1 2 3 show "postIssueEvent p event = []
     \<and> handleIssueNotification p event = []
     \<and> snd (handleWebhook_switch p (IssuesEvent event)) = []" by blast
qed

theorem labeled_issue_within_4_seconds_witness:
  "Action (labeledEvent ''bug'') = actionLabeled
   \<and> clock (pluginBug\<lparr>clock := 3999999999\<rparr>) - IssueCreatedAt (IssueOf (labeledEvent ''bug''))
       < 4000000000
   \<and> snd (handleWebhook_switch (pluginBug\<lparr>clock := 3999999999\<rparr>)
            (IssuesEvent (labeledEvent ''bug''))) = []
   \<and> postIssueEvent (pluginBug\<lparr>clock := 3999999999\<rparr>) (labeledEvent ''bug'') = []
   \<and> postIssueEvent pluginBug (labeledEvent ''bug'') = [ChannelPost ''chan1'' ''custom_git_issue'']"
proof -
  have a: "Action (labeledEvent ''bug'') = actionLabeled"
    by (rule labeledEvent_fields)
  have t: "clock (pluginBug\<lparr>clock := 3999999999\<rparr>) - IssueCreatedAt (IssueOf (labeledEvent ''bug''))
       < 4000000000"
    by (simp add: labeledEvent_fields)
  from labeled_issue_within_4_seconds [of "labeledEvent ''bug''" "pluginBug\<lparr>clock := 3999999999\<rparr>"]
    a t
  have "postIssueEvent (pluginBug\<lparr>clock := 3999999999\<rparr>) (labeledEvent ''bug'') = []
     \<and> snd (handleWebhook_switch (pluginBug\<lparr>clock := 3999999999\<rparr>)
            (IssuesEvent (labeledEvent ''bug''))) = []"
    by blast
  with a t show ?thesis by (simp add: pluginBug_posts)
qed

subsection \<open>C1: the notification kill-switch\<close>

text \<open>
  Claim C1 says that an event of any of the nine kinds whose repository is on the
  notification-disabled list dispatches no message. Eight branches of the type switch
  ask \<open>IsNotificationOff\<close> before anything else (lemmas \<open>kill_switch_checked_kinds\<close> and
  \<open>kill_switch_push\<close>); the branch for star events does not, and its result does not
  depend on the list at all (lemma \<open>star_never_asks_kill_switch\<close>). Here the
  organization \<open>acme\<close> is followed by channel \<open>chan1\<close> for stars and pushes with
  \<open>acme/widgets\<close> on the disabled list: a correctly signed star event on \<open>acme/widgets\<close>
  is posted to the channel, while a push on the same repository is dropped, as it would
  not be without the list.
\<close>

theorem star_event_ignores_kill_switch:
  "IsNotificationOff pluginStar ''acme/widgets''
   \<and> derefFullName (Repo payload0) = Some ''acme/widgets''
   \<and> handleWebhook pluginStar mac0 zeroSignature (Some []) (Some (StarEvent payload0))
       = (Status 200, [ChannelPost ''chan1'' ''custom_git_star''])
   \<and> handleWebhook pluginStar mac0 zeroSignature (Some [])
         (Some (PushEvent (payload0\<lparr>Commits := 2\<rparr>)))
       = (Status 200, [])
   \<and> handleWebhook (pluginStar\<lparr>KVNotificationOff := None\<rparr>) mac0 zeroSignature (Some [])
         (Some (PushEvent (payload0\<lparr>Commits := 2\<rparr>)))
       = (Status 200, [ChannelPost ''chan1'' ''custom_git_push''])"
proof -
  let ?sub = "mkSub ''chan1'' ''user1'' ''stars,pushes'' ''acme/''"
  let ?repo = "Some \<lparr>FullName = Some ''acme/widgets'', Private = False\<rparr>"
  have off: "IsNotificationOff pluginStar ''acme/widgets''"
    by (simp add: IsNotificationOff_def GetExcludedNotificationRepos_def pluginStar_def
          plugin0_def)
  have on: "\<not> IsNotificationOff (pluginStar\<lparr>KVNotificationOff := None\<rparr>) ''acme/widgets''"
    by (simp add: IsNotificationOff_def GetExcludedNotificationRepos_def pluginStar_def
          plugin0_def)
  have repo: "Repo payload0 = ?repo"
    by (simp add: payload0_def)
  have name: "derefFullName ?repo = Some ''acme/widgets''"
    "GetFullName ?repo = ''acme/widgets''" "\<not> GetPrivate ?repo"
    by (simp_all add: derefFullName_def GetFullName_def GetPrivate_def)
  have sig: "verifyWebhookSignature mac0 [] zeroSignature [] = Inr True"
    by (simp add: verifyWebhookSignature_def zeroSignature_def HasPrefix_def signBody_def
          hmacEqual_eq mac0_def fromHexChar_def)
  have secret: "WebhookSecret pluginStar = []"
    "WebhookSecret (pluginStar\<lparr>KVNotificationOff := None\<rparr>) = []"
    by (simp_all add: pluginStar_def plugin0_def)
  have lower: "ToLower ''acme/widgets'' = ''acme/widgets''"
    by (simp add: ToLower_def lower_char_def char_eq_code)
  have split: "Split ''acme/widgets'' ''/'' = [''acme'', ''widgets'']"
    by (simp add: Split.simps)
  have subs: "GetSubscribedChannelsForRepository pluginStar ?repo = [?sub]"
    by (simp add: GetSubscribedChannelsForRepository_def name lower split GetSubscriptions_def
          pluginStar_def plugin0_def SubscriptionsKey_def listOrNil_def
          fullNameFromOwnerAndRepo_def)
  have feat: "Stars ?sub" "Pushes ?sub" "\<not> excludeConfigOrgMember p u ?sub"
    "ChannelID ?sub = ''chan1''" for p u
    by (simp_all add: Stars_def Pushes_def featureStars_def mkSub_def flags0_def
          excludeConfigOrgMember_def ExcludeOrgMembers_def)
  have render: "renderTemplate pluginStar t = Some t" for t
    by (simp add: pluginStar_def plugin0_def)
  have star: "postStarEvent pluginStar payload0 = [ChannelPost ''chan1'' ''custom_git_star'']"
    by (simp add: postStarEvent_def repo subs feat render)
  have push: "postPushEvent pluginStar (payload0\<lparr>Commits := 2\<rparr>)
                = [ChannelPost ''chan1'' ''custom_git_push'']"
    by (simp add: postPushEvent_def repo name subs feat render)
  have priv: "EnablePrivateRepo pluginStar" by (simp add: pluginStar_def plugin0_def)
  have 1: "handleWebhook pluginStar mac0 zeroSignature (Some []) (Some (StarEvent payload0))
       = (Status 200, [ChannelPost ''chan1'' ''custom_git_star''])"
    by (simp add: handleWebhook_def secret sig runHandler_def star priv repo)
  have 2: "handleWebhook pluginStar mac0 zeroSignature (Some [])
         (Some (PushEvent (payload0\<lparr>Commits := 2\<rparr>))) = (Status 200, [])"
    using kill_switch_push [of pluginStar "payload0\<lparr>Commits := 2\<rparr>"] off
    by (simp add: handleWebhook_def secret sig repo name)
  have push': "postPushEvent (pluginStar\<lparr>KVNotificationOff := None\<rparr>) (payload0\<lparr>Commits := 2\<rparr>)
                = [ChannelPost ''chan1'' ''custom_git_push'']"
    by (simp add: postPushEvent_def repo name GetSubscribedChannelsForRepository_off subs feat
          render)
  have 3: "handleWebhook (pluginStar\<lparr>KVNotificationOff := None\<rparr>) mac0 zeroSignature (Some [])
         (Some (PushEvent (payload0\<lparr>Commits := 2\<rparr>)))
       = (Status 200, [ChannelPost ''chan1'' ''custom_git_push''])"
    using on
    by (simp add: handleWebhook_def secret sig repo name push' runHandler_def priv
          ConvertPushEventRepositoryToRepository_def)
  from off repo name(1) 1 2 3 show ?thesis by simp
qed

subsection \<open>C2: muted senders\<close>

text \<open>
  Claim C2, as amended. For every issue-comment event whose sender the receiving user
  has muted (\<open>senderMutedByReceiver\<close>), the two comment notification paths send that
  user no direct notification: neither the notification to the author of the issue or
  pull request commented on, nor the notification to its assignees. The other paths do
  not consult the mute list, whatever it holds: the mention notifications, the
  pull-request notifications (review requested, closed, reopened, assigned) and the
  issue notifications (closed, reopened, assigned).
\<close>

theorem muted_sender_comment_notifications:
  "(senderMutedByReceiver p userID (Sender event) \<longrightarrow>
      DirectPost userID postType \<notin> set (handleCommentAuthorNotification p event)
      \<and> DirectPost userID postType \<notin> set (handleCommentAssigneeNotification p event))
   \<and> handleCommentMentionNotification (p\<lparr>KVBytes := kv\<rparr>) event
       = handleCommentMentionNotification p event
   \<and> handlePRDescriptionMentionNotification (p\<lparr>KVBytes := kv\<rparr>) event
       = handlePRDescriptionMentionNotification p event
   \<and> handlePullRequestNotification (p\<lparr>KVBytes := kv\<rparr>) event
       = handlePullRequestNotification p event
   \<and> handleIssueNotification (p\<lparr>KVBytes := kv\<rparr>) event
       = handleIssueNotification p event"
proof -
  have 1: "senderMutedByReceiver p userID (Sender event) \<longrightarrow>
      DirectPost userID postType \<notin> set (handleCommentAuthorNotification p event)
      \<and> DirectPost userID postType \<notin> set (handleCommentAssigneeNotification p event)"
    using handleCommentAuthorNotification_muted [of "DirectPost userID postType" p event]
      handleCommentAssigneeNotification_muted [of "DirectPost userID postType" p event]
    by auto
  have 2: "handleCommentMentionNotification (p\<lparr>KVBytes := kv\<rparr>) event
       = handleCommentMentionNotification p event"
    by (simp add: handleCommentMentionNotification_def mention_loop_kv Let_def
          split: option.splits)
  have 3: "handlePRDescriptionMentionNotification (p\<lparr>KVBytes := kv\<rparr>) event
       = handlePRDescriptionMentionNotification p event"
    by (simp add: handlePRDescriptionMentionNotification_def mention_loop_kv Let_def
          split: option.splits)
  have 4: "handlePullRequestNotification (p\<lparr>KVBytes := kv\<rparr>) event
       = handlePullRequestNotification p event"
    by (simp add: handlePullRequestNotification_def resolveUser_kv Let_def
          split: option.splits prod.splits)
  have 5: "handleIssueNotification (p\<lparr>KVBytes := kv\<rparr>) event
       = handleIssueNotification p event"
    by (simp add: handleIssueNotification_def resolveUser_kv Let_def
          split: option.splits prod.splits)
  from 1 2 3 4 5 show ?thesis by blast
qed

lemma pluginMuted_facts:
  "senderMutedByReceiver pluginMuted ''id-bob'' ''alice''"
  "senderMutedByReceiver pluginMuted ''id-carol'' ''alice''"
  "\<not> senderMutedByReceiver (pluginMuted\<lparr>KVBytes := Map.empty\<rparr>) userID ''alice''"
  "getGitHubToUserIDMapping pluginMuted ''bob'' = ''id-bob''"
  "getGitHubToUserIDMapping pluginMuted ''carol'' = ''id-carol''"
  "permissionToRepo pluginMuted ''id-carol'' ''acme/widgets''"
  "renderTemplate pluginMuted name = Some name"
  "GetDirectChannel pluginMuted userID = Some (''dm-'' @ userID)"
  "parseGitHubUsernamesFromText pluginMuted text = [''carol'']"
  by (simp_all add: senderMutedByReceiver_def KVGet_def bytesToString_def pluginMuted_def
        plugin0_def permissionToRepo_def)

lemma commentEvent_facts:
  "Action commentEvent = ''created''" "Sender commentEvent = ''alice''"
  "IssueUser (IssueOf commentEvent) = ''bob''"
  "IssueAssignees (IssueOf commentEvent) = [''carol'']"
  "IssueHTMLURL (IssueOf commentEvent) = ''https://example.com/acme/widgets/issues/1''"
  "CommentBody commentEvent = ''@carol please look''"
  "GetPrivate (Repo commentEvent) = False"
  "GetFullName (Repo commentEvent) = ''acme/widgets''"
  by (simp_all add: commentEvent_def payload0_def GetPrivate_def GetFullName_def)

lemma payload0_facts:
  "Sender payload0 = ''alice''" "PRUser (PullRequestOf payload0) = ''bob''"
  "IssueUser (IssueOf payload0) = ''bob''" "GetPrivate (Repo payload0) = False"
  by (simp_all add: payload0_def GetPrivate_def)

text \<open>
  The claim as first stated covers the mention path, the actions on an issue or pull
  request of the user, and review requests. With \<open>alice\<close> muted by \<open>carol\<close> and by
  \<open>bob\<close>: a comment of \<open>alice\<close> mentioning \<open>carol\<close> notifies \<open>carol\<close>; \<open>alice\<close> closing
  an issue of \<open>bob\<close> notifies \<open>bob\<close>; \<open>alice\<close> requesting a review from \<open>bob\<close> notifies
  \<open>bob\<close>.
\<close>

theorem muted_sender_still_notified_counterexample:
  "senderMutedByReceiver pluginMuted ''id-carol'' (Sender commentEvent)
   \<and> senderMutedByReceiver pluginMuted ''id-bob'' (Sender payload0)
   \<and> handleCommentMentionNotification pluginMuted commentEvent
       = [DirectPost ''id-carol'' ''custom_git_mention'']
   \<and> handleIssueNotification pluginMuted (payload0\<lparr>Action := ''closed''\<rparr>)
       = [DirectPost ''id-bob'' ''custom_git_author'']
   \<and> handlePullRequestNotification pluginMuted
         (payload0\<lparr>Action := ''review_requested'', RequestedReviewer := ''bob''\<rparr>)
       = [DirectPost ''id-bob'' ''custom_git_review_request'']"
proof -
  have 1: "handleCommentMentionNotification pluginMuted commentEvent
       = [DirectPost ''id-carol'' ''custom_git_mention'']"
    by (simp add: handleCommentMentionNotification_def commentEvent_facts pluginMuted_facts
          actionEdited_def actionDeleted_def)
  have 2: "handleIssueNotification pluginMuted (payload0\<lparr>Action := ''closed''\<rparr>)
       = [DirectPost ''id-bob'' ''custom_git_author'']"
    by (simp add: handleIssueNotification_def payload0_facts pluginMuted_facts resolveUser_def
          actionClosed_def postIssueNotification_def CreateBotDMPost_def)
  have 3: "handlePullRequestNotification pluginMuted
         (payload0\<lparr>Action := ''review_requested'', RequestedReviewer := ''bob''\<rparr>)
       = [DirectPost ''id-bob'' ''custom_git_review_request'']"
    by (simp add: handlePullRequestNotification_def payload0_facts pluginMuted_facts
          resolveUser_def postIssueNotification_def CreateBotDMPost_def)
  from 1 2 3 show ?thesis
    by (simp add: pluginMuted_facts commentEvent_facts payload0_facts)
qed

theorem muted_sender_comment_notifications_witness:
  "senderMutedByReceiver pluginMuted ''id-bob'' (Sender commentEvent)
   \<and> DirectPost ''id-bob'' ''custom_git_author''
        \<notin> set (handleCommentAuthorNotification pluginMuted commentEvent)
   \<and> handleCommentAuthorNotification pluginMuted commentEvent = []
   \<and> handleCommentAssigneeNotification pluginMuted commentEvent = []
   \<and> handleCommentAuthorNotification (pluginMuted\<lparr>KVBytes := Map.empty\<rparr>) commentEvent
       = [DirectPost ''id-bob'' ''custom_git_author'']
   \<and> handleCommentAssigneeNotification (pluginMuted\<lparr>KVBytes := Map.empty\<rparr>) commentEvent
       = [DirectPost ''id-carol'' ''custom_git_assignee'']"
proof -
  have m: "senderMutedByReceiver pluginMuted ''id-bob'' (Sender commentEvent)"
    by (simp add: pluginMuted_facts commentEvent_facts)
  from muted_sender_comment_notifications [of pluginMuted "''id-bob''" commentEvent
      "''custom_git_author''"] m
  have 0: "DirectPost ''id-bob'' ''custom_git_author''
        \<notin> set (handleCommentAuthorNotification pluginMuted commentEvent)"
    by blast
  have 1: "handleCommentAuthorNotification pluginMuted commentEvent = []"
    by (simp add: handleCommentAuthorNotification_def commentEvent_facts pluginMuted_facts
          issueKind_example actionEdited_def actionDeleted_def)
  have 2: "handleCommentAssigneeNotification pluginMuted commentEvent = []"
    by (simp add: handleCommentAssigneeNotification_def commentEvent_facts pluginMuted_facts
          issueKind_example)
  have 3: "handleCommentAuthorNotification (pluginMuted\<lparr>KVBytes := Map.empty\<rparr>) commentEvent
       = [DirectPost ''id-bob'' ''custom_git_author'']"
    using pluginMuted_facts(3) [of "''id-bob''"]
    by (simp add: handleCommentAuthorNotification_def commentEvent_facts pluginMuted_facts
          permissionToRepo_kv issueKind_example actionEdited_def actionDeleted_def
          CreateBotDMPost_def)
  have 4: "handleCommentAssigneeNotification (pluginMuted\<lparr>KVBytes := Map.empty\<rparr>) commentEvent
       = [DirectPost ''id-carol'' ''custom_git_assignee'']"
    using pluginMuted_facts(3) [of "''id-carol''"]
    by (simp add: handleCommentAssigneeNotification_def commentEvent_facts pluginMuted_facts
          permissionToRepo_kv issueKind_example CreateBotDMPost_def)
  from m 0 1 2 3 4 show ?thesis by blast
qed

end
